theory Spec2Isabelle
  imports Complex_Main "HOL-Library.Sublist"
begin

section \<open>The training loop of openpifpaf (network/trainer.py)\<close>

text \<open>
  The class \<open>Trainer\<close> drives a model, an optimizer, a learning-rate scheduler and a
  list of loss functors. They are collaborators the trainer only calls: here each of
  them is a field of the trainer holding a function, and every call the trainer makes
  to one of them is recorded, in program order, in the field \<open>trace\<close>. What a
  collaborator returns may depend on everything that was called before (the gradient
  buffers, the optimizer's momentum, the batch-norm statistics), so these functions
  take the trace so far as an argument.

  A tensor is the list of its entries. An entry is a real number, the finite floats
  being among them; what the in-place arithmetic of the tensor library makes of two
  entries depends on the dtype and the device of the tensors, and is a collaborator
  too: the trainer carries it in the fields \<open>py_sub\<close>, \<open>mul_entry\<close> and
  \<open>add_entry\<close>. The tensor library is called on operands of one shape only (the EMA
  shadow and the restore buffer are deep copies of the parameter list), and that is the
  case the three tensor operations below describe.
\<close>

subsection \<open>Data\<close>

type_synonym tensor = "real list"
type_synonym data = tensor
type_synonym head_output = "tensor list"
type_synonym head_target = "tensor list"
type_synonym meta = string
type_synonym scene = "data \<times> head_target list \<times> meta"

datatype error = AssertionError | ZeroDivisionError | TypeError | IndexError

datatype log_record =
    LogInfo string
  | LogDebug string
  | LogTrain int nat nat "real option" "real option" "real option list"
  | LogTrainEpoch int real "real list"
  | LogValEpoch int real "real list"

datatype event =
    Visualize data "head_target list" meta
  | Forward data
  | Backward
  | OptimizerStep
  | ZeroGrad
  | SchedulerStep
  | ModelTrain
  | ModelEval
  | FixBatchNorm
  | Print int
  | Log log_record
  | ModelToCpu
  | Save string int
  | ModelToDevice

text \<open>
  The fields of \<open>Trainer.__init__\<close>, in its order. \<open>model\<close> is the forward pass
  \<open>self.model(data)\<close> as a function of the calls so far and of the current parameter
  values; \<open>params\<close> holds \<open>[p.data for p in self.model.parameters()]\<close>; \<open>optimizer\<close>
  is what \<open>self.optimizer.step()\<close> makes of the parameters; \<open>optimizer_lr\<close> is the
  \<open>lr\<close> of the first parameter group, when there is one. \<open>lr_scheduler\<close> and
  \<open>encoder_visualizer\<close> say whether the collaborator was given; \<open>device\<close> is its
  name, when given; \<open>model_is_data_parallel\<close> is
  \<open>isinstance(self.model, torch.nn.DataParallel)\<close>.

  The arithmetic of \<open>step_ema\<close>: \<open>py_sub x y\<close> is the value of the expression
  \<open>x - y\<close> that Python evaluates in \<open>1.0 - self.ema_decay\<close>; \<open>mul_entry x c\<close> is
  what \<open>t.mul_(c)\<close> puts in the place of an entry \<open>x\<close> of \<open>t\<close>; \<open>add_entry x alpha y\<close>
  is what \<open>t.add_(alpha, other)\<close> puts in the place of an entry \<open>x\<close> of \<open>t\<close> that
  meets the entry \<open>y\<close> of \<open>other\<close>. In the reals these are \<open>x - y\<close>, \<open>x * c\<close> and
  \<open>x + alpha * y\<close>; in floating point each of them rounds.
\<close>

record trainer =
  model :: "event list \<Rightarrow> tensor list \<Rightarrow> data \<Rightarrow> head_output list"
  model_is_data_parallel :: bool
  params :: "tensor list"
  losses :: "(head_output \<Rightarrow> head_target \<Rightarrow> real option list) list"
  optimizer :: "event list \<Rightarrow> tensor list \<Rightarrow> tensor list"
  optimizer_lr :: "event list \<Rightarrow> real option"
  out :: string
  lr_scheduler :: bool
  log_interval :: int
  device :: "string option"
  fix_batch_norm :: bool
  lambdas :: "real list"
  stride_apply :: int
  ema_decay :: "real option"
  ema :: "tensor list option"
  ema_restore_params :: "tensor list option"
  encoder_visualizer :: bool
  model_meta_data :: string
  py_sub :: "real \<Rightarrow> real \<Rightarrow> real"
  mul_entry :: "real \<Rightarrow> real \<Rightarrow> real"
  add_entry :: "real \<Rightarrow> real \<Rightarrow> real \<Rightarrow> real"
  trace :: "event list"

text \<open>A computation of the trainer: its result or the exception it raised, and the
  trainer as the computation left it (an exception does not undo what was done).\<close>

type_synonym 'a result = "(error + 'a) \<times> trainer"

definition emit :: "event list \<Rightarrow> trainer \<Rightarrow> trainer" where
  "emit evs s = s\<lparr>trace := trace s @ evs\<rparr>"

subsection \<open>Tensor operations\<close>

text \<open>\<open>t.mul_(c)\<close>, \<open>t.add_(alpha, other)\<close> and \<open>t.copy_(src)\<close>, as the new value of \<open>t\<close>.
  The first two work entry by entry, with the arithmetic \<open>mul\<close> and \<open>add\<close> of the
  tensors; the copy is exact.\<close>

definition tensor_mul :: "(real \<Rightarrow> real \<Rightarrow> real) \<Rightarrow> tensor \<Rightarrow> real \<Rightarrow> tensor" where
  "tensor_mul mul t c = map (\<lambda>x. mul x c) t"

definition tensor_add ::
  "(real \<Rightarrow> real \<Rightarrow> real \<Rightarrow> real) \<Rightarrow> tensor \<Rightarrow> real \<Rightarrow> tensor \<Rightarrow> tensor" where
  "tensor_add add t alpha other = map2 (\<lambda>x y. add x alpha y) t other"

definition tensor_copy :: "tensor \<Rightarrow> tensor \<Rightarrow> tensor" where
  "tensor_copy t src = src"

subsection \<open>Exponential moving average\<close>

text \<open>
  \<open>step_ema\<close>: \<open>shadow_step s d ps e\<close> is the shadow after
  \<open>for p, ema_p in zip(ps, e): ema_p.mul_(1.0 - d).add_(d, p)\<close>, in the arithmetic of
  the trainer \<open>s\<close>; \<open>zip\<close> stops at the shorter list, so shadow entries beyond the last
  parameter stay as they are. With a shadow but no decay constant, \<open>1.0 - None\<close>
  raises as soon as the loop body runs once.
\<close>

definition shadow_step :: "trainer \<Rightarrow> real \<Rightarrow> tensor list \<Rightarrow> tensor list \<Rightarrow> tensor list" where
  "shadow_step s d ps e =
     map2 (\<lambda>p ema_p.
             tensor_add (add_entry s) (tensor_mul (mul_entry s) ema_p (py_sub s 1 d)) d p) ps e
     @ drop (length ps) e"

definition step_ema :: "trainer \<Rightarrow> error option \<times> trainer" where
  "step_ema s =
     (case ema s of
        None \<Rightarrow> (None, s)
      | Some e \<Rightarrow>
          (case ema_decay s of
             None \<Rightarrow> (if zip (params s) e = [] then (None, s) else (Some TypeError, s))
           | Some d \<Rightarrow> (None, s\<lparr>ema := Some (shadow_step s d (params s) e)\<rparr>)))"


text \<open>\<open>copy_params ps src\<close>: \<open>for p, q in zip(ps, src): p.copy_(q)\<close>.\<close>

definition copy_params :: "tensor list \<Rightarrow> tensor list \<Rightarrow> tensor list" where
  "copy_params ps src = map2 tensor_copy ps src @ drop (length src) ps"

definition apply_ema :: "trainer \<Rightarrow> trainer" where
  "apply_ema s =
     (case ema s of
        None \<Rightarrow> s
      | Some e \<Rightarrow>
          (let s1 = emit [Log (LogInfo ''applying ema'')] s;
               s2 = s1\<lparr>ema_restore_params := Some (params s1)\<rparr>
           in s2\<lparr>params := copy_params (params s2) e\<rparr>))"

definition ema_restore :: "trainer \<Rightarrow> trainer" where
  "ema_restore s =
     (case ema_restore_params s of
        None \<Rightarrow> s
      | Some r \<Rightarrow>
          (let s1 = emit [Log (LogInfo ''restoring params from before ema'')] s;
               s2 = s1\<lparr>params := copy_params (params s1) r\<rparr>
           in s2\<lparr>ema_restore_params := None\<rparr>))"

subsection \<open>The combined loss\<close>

text \<open>The sub-losses of all heads, in head order: the comprehension of lines 99 to 101.\<close>

definition head_losses_of ::
  "trainer \<Rightarrow> head_output list \<Rightarrow> head_target list \<Rightarrow> real option list" where
  "head_losses_of s outputs targets =
     concat (map (\<lambda>(l, ou, t). l ou t) (zip (losses s) (zip outputs targets)))"

text \<open>\<open>sum(loss_values)\<close> adds from the left, starting at 0.\<close>

definition py_sum :: "real list \<Rightarrow> real" where
  "py_sum xs = foldl (+) 0 xs"

text \<open>\<open>[lam * l for lam, l in zip(lambdas, head_losses) if l is not None]\<close>.\<close>

definition weighted :: "real list \<Rightarrow> real option list \<Rightarrow> real list" where
  "weighted lams hl =
     concat (map (\<lambda>(lam, l). case l of None \<Rightarrow> [] | Some v \<Rightarrow> [lam * v]) (zip lams hl))"

definition loss ::
  "trainer \<Rightarrow> head_output list \<Rightarrow> head_target list
     \<Rightarrow> error + (real option \<times> real option list)" where
  "loss s outputs targets =
     (if length (losses s) \<noteq> length outputs then Inl AssertionError
      else
        let head_losses = head_losses_of s outputs targets in
        if length (lambdas s) \<noteq> length head_losses then Inl AssertionError
        else
          let loss_values = weighted (lambdas s) head_losses
          in Inr (if loss_values \<noteq> [] then Some (py_sum loss_values) else None,
                  head_losses))"

subsection \<open>One batch\<close>

text \<open>
  Moving a tensor to the device does not change its entries, so lines 115 to 117 and
  136 to 138 leave \<open>data\<close> and \<open>targets\<close> as they are. \<open>float(l.item())\<close> is the
  value of the loss.
\<close>

definition train_batch ::
  "trainer \<Rightarrow> data \<Rightarrow> head_target list \<Rightarrow> meta \<Rightarrow> bool
     \<Rightarrow> (real option \<times> real option list) result" where
  "train_batch s data targets meta apply_gradients =
     (let s1 = (if encoder_visualizer s then emit [Visualize data targets meta] s else s);
          outputs = model s1 (trace s1) (params s1) data;
          s2 = emit [Forward data] s1
      in case loss s2 outputs targets of
           Inl e \<Rightarrow> (Inl e, s2)
         | Inr (l, head_losses) \<Rightarrow>
             (let s3 = (if l \<noteq> None then emit [Backward] s2 else s2) in
              if apply_gradients then
                (let s4 = emit [OptimizerStep] s3;
                     s5 = s4\<lparr>params := optimizer s4 (trace s4) (params s4)\<rparr>;
                     s6 = emit [ZeroGrad] s5
                 in case step_ema s6 of
                      (Some e, s7) \<Rightarrow> (Inl e, s7)
                    | (None, s7) \<Rightarrow> (Inr (l, head_losses), s7))
              else (Inr (l, head_losses), s3)))"

definition val_batch ::
  "trainer \<Rightarrow> data \<Rightarrow> head_target list \<Rightarrow> (real option \<times> real option list) result" where
  "val_batch s data targets =
     (let outputs = model s (trace s) (params s) data;
          s1 = emit [Forward data] s
      in case loss s1 outputs targets of
           Inl e \<Rightarrow> (Inl e, s1)
         | Inr r \<Rightarrow> (Inr r, s1))"

subsection \<open>One epoch of training\<close>

text \<open>
  Lines 186 to 189:
  \<^verbatim>\<open>for i, head_loss in enumerate(head_losses):
      if head_loss is None: continue
      head_epoch_losses[i] += head_loss\<close>
  An index beyond the running sums raises.
\<close>

fun add_head_losses :: "real list \<Rightarrow> real option list \<Rightarrow> error + real list" where
  "add_head_losses acc [] = Inr acc"
| "add_head_losses [] (None # hs) = add_head_losses [] hs"
| "add_head_losses [] (Some v # hs) = Inl IndexError"
| "add_head_losses (x # acc) (h # hs) =
     (case add_head_losses acc hs of
        Inl e \<Rightarrow> Inl e
      | Inr r \<Rightarrow> Inr ((case h of None \<Rightarrow> x | Some v \<Rightarrow> x + v) # r))"

definition add_loss :: "real \<Rightarrow> real option \<Rightarrow> real" where
  "add_loss epoch_loss l = (case l of None \<Rightarrow> epoch_loss | Some v \<Rightarrow> epoch_loss + v)"

text \<open>The truth value of \<open>self.ema_decay\<close>: a number other than zero.\<close>

fun truthy :: "real option \<Rightarrow> bool" where
  "truthy None = False"
| "truthy (Some d) = (d \<noteq> 0)"

text \<open>Lines 151 to 177: what \<open>train\<close> does before its first batch.\<close>

definition train_begin :: "trainer \<Rightarrow> int \<Rightarrow> trainer" where
  "train_begin s epoch =
     (let s1 = emit (ModelTrain # (if fix_batch_norm s then [FixBatchNorm] else [])) s;
          s2 = ema_restore s1;
          s3 = s2\<lparr>ema := None\<rparr>;
          s4 = emit (Print epoch # (if lr_scheduler s3 then [SchedulerStep] else [])) s3
      in emit [ZeroGrad] s4)"

text \<open>Lines 192 to 203, the record of every \<open>log_interval\<close>-th batch; the divisor is
  not zero here. Its times and the rounding of its numbers are left out.\<close>

definition log_batch ::
  "trainer \<Rightarrow> int \<Rightarrow> nat \<Rightarrow> nat \<Rightarrow> real option \<Rightarrow> real option list \<Rightarrow> trainer" where
  "log_batch s epoch batch_idx n_batches l head_losses =
     (if int batch_idx mod log_interval s = 0
      then emit [Log (LogTrain epoch batch_idx n_batches
                   (optimizer_lr s (trace s)) l head_losses)] s
      else s)"

text \<open>Lines 205 to 207.\<close>

definition initialize_ema :: "trainer \<Rightarrow> trainer" where
  "initialize_ema s =
     (if ema s = None \<and> truthy (ema_decay s) then s\<lparr>ema := Some (params s)\<rparr> else s)"

text \<open>
  The loop of lines 178 to 209 over \<open>enumerate(scenes)\<close>: \<open>n_batches\<close> is
  \<open>len(scenes)\<close>, \<open>batch_idx\<close> the index of the head of the list. \<open>%\<close> by zero
  raises.
\<close>

fun train_batches ::
  "trainer \<Rightarrow> int \<Rightarrow> nat \<Rightarrow> nat \<Rightarrow> real \<Rightarrow> real list \<Rightarrow> scene list
     \<Rightarrow> (real \<times> real list) result" where
  "train_batches s epoch n_batches batch_idx epoch_loss head_epoch_losses [] =
     (Inr (epoch_loss, head_epoch_losses), s)"
| "train_batches s epoch n_batches batch_idx epoch_loss head_epoch_losses
       ((data, target, meta) # rest) =
     (if stride_apply s = 0 then (Inl ZeroDivisionError, s)
      else
        let apply_gradients = (int batch_idx mod stride_apply s = 0) in
        case train_batch s data target meta apply_gradients of
          (Inl e, s1) \<Rightarrow> (Inl e, s1)
        | (Inr (l, head_losses), s1) \<Rightarrow>
            (case add_head_losses head_epoch_losses head_losses of
               Inl e \<Rightarrow> (Inl e, s1)
             | Inr head_epoch_losses' \<Rightarrow>
                 if log_interval s1 = 0 then (Inl ZeroDivisionError, s1)
                 else
                   let s2 = log_batch s1 epoch batch_idx n_batches l head_losses;
                       s3 = initialize_ema s2
                   in train_batches s3 epoch n_batches (Suc batch_idx)
                        (add_loss epoch_loss l) head_epoch_losses' rest))"

text \<open>The epoch up to its batch \<open>i\<close>: the start of \<open>train\<close> and the first \<open>i\<close> rounds
  of its loop, with the running sums and the trainer as batch \<open>i\<close> finds them.\<close>

definition train_upto :: "trainer \<Rightarrow> scene list \<Rightarrow> int \<Rightarrow> nat \<Rightarrow> (real \<times> real list) result" where
  "train_upto s scenes epoch i =
     (let s1 = train_begin s epoch in
      train_batches s1 epoch (length scenes) 0 0 (replicate (length (lambdas s1)) 0)
        (take i scenes))"

definition train :: "trainer \<Rightarrow> scene list \<Rightarrow> int \<Rightarrow> unit result" where
  "train s scenes epoch =
     (let s1 = train_begin s epoch in
      case train_batches s1 epoch (length scenes) 0 0
             (replicate (length (lambdas s1)) 0) scenes of
        (Inl e, s2) \<Rightarrow> (Inl e, s2)
      | (Inr (epoch_loss, head_epoch_losses), s2) \<Rightarrow>
          (let s3 = apply_ema s2 in
           if length scenes = 0 then (Inl ZeroDivisionError, s3)
           else (Inr (),
                 emit [Log (LogTrainEpoch (epoch + 1)
                         (epoch_loss / real (length scenes))
                         (map (\<lambda>l. l / real (length scenes)) head_epoch_losses))] s3)))"

subsection \<open>One epoch of validation\<close>

fun val_batches ::
  "trainer \<Rightarrow> real \<Rightarrow> real list \<Rightarrow> scene list \<Rightarrow> (real \<times> real list) result" where
  "val_batches s epoch_loss head_epoch_losses [] = (Inr (epoch_loss, head_epoch_losses), s)"
| "val_batches s epoch_loss head_epoch_losses ((data, target, meta) # rest) =
     (case val_batch s data target of
        (Inl e, s1) \<Rightarrow> (Inl e, s1)
      | (Inr (l, head_losses), s1) \<Rightarrow>
          (case add_head_losses head_epoch_losses head_losses of
             Inl e \<Rightarrow> (Inl e, s1)
           | Inr head_epoch_losses' \<Rightarrow>
               val_batches s1 (add_loss epoch_loss l) head_epoch_losses' rest))"

definition val :: "trainer \<Rightarrow> scene list \<Rightarrow> int \<Rightarrow> unit result" where
  "val s scenes epoch =
     (let s1 = emit [ModelEval] s in
      case val_batches s1 0 (replicate (length (lambdas s1)) 0) scenes of
        (Inl e, s2) \<Rightarrow> (Inl e, s2)
      | (Inr (epoch_loss, head_epoch_losses), s2) \<Rightarrow>
          if length scenes = 0 then (Inl ZeroDivisionError, s2)
          else (Inr (),
                emit [Log (LogValEpoch epoch
                        (epoch_loss / real (length scenes))
                        (map (\<lambda>l. l / real (length scenes)) head_epoch_losses))] s2))"

subsection \<open>Checkpoints\<close>

text \<open>\<open>'{:03d}'.format(epoch)\<close>: the decimal digits, padded with zeros after the sign
  to three characters in all.\<close>

fun digits :: "nat \<Rightarrow> string" where
  "digits n = (if n < 10 then [''0123456789'' ! n]
               else digits (n div 10) @ [''0123456789'' ! (n mod 10)])"

declare digits.simps [simp del]

definition zero_pad :: "nat \<Rightarrow> string \<Rightarrow> string" where
  "zero_pad w ds = replicate (w - length ds) CHR ''0'' @ ds"

definition format_03d :: "int \<Rightarrow> string" where
  "format_03d i = (if i < 0 then CHR ''-'' # zero_pad 2 (digits (nat (- i)))
                   else zero_pad 3 (digits (nat i)))"

definition write_model :: "trainer \<Rightarrow> int \<Rightarrow> bool \<Rightarrow> trainer" where
  "write_model s epoch final =
     (let s1 = emit [ModelToCpu] s;
          s2 = (if model_is_data_parallel s1
                then emit [Log (LogDebug ''Writing a dataparallel model.'')] s1
                else emit [Log (LogDebug ''Writing a single-thread model.'')] s1);
          filename = (if final then out s2 else out s2 @ ''.epoch'' @ format_03d epoch);
          s3 = emit [Log (LogDebug ''about to write model'')] s2;
          s4 = emit [Save filename epoch] s3;
          s5 = emit [Log (LogDebug ''model written'')] s4
      in emit [ModelToDevice] s5)"

subsection \<open>The run\<close>

text \<open>The second loop of \<open>loop\<close>, over the epochs of \<open>range(start_epoch, epochs)\<close>
  that are still to run.\<close>

fun loop_epochs :: "trainer \<Rightarrow> scene list \<Rightarrow> scene list \<Rightarrow> int \<Rightarrow> int list \<Rightarrow> unit result" where
  "loop_epochs s train_scenes val_scenes epochs [] = (Inr (), s)"
| "loop_epochs s train_scenes val_scenes epochs (epoch # rest) =
     (case train s train_scenes epoch of
        (Inl e, s1) \<Rightarrow> (Inl e, s1)
      | (Inr u, s1) \<Rightarrow>
          (let s2 = write_model s1 (epoch + 1) (epoch = epochs - 1) in
           case val s2 val_scenes (epoch + 1) of
             (Inl e, s3) \<Rightarrow> (Inl e, s3)
           | (Inr u', s3) \<Rightarrow> loop_epochs s3 train_scenes val_scenes epochs rest))"

definition loop :: "trainer \<Rightarrow> scene list \<Rightarrow> scene list \<Rightarrow> int \<Rightarrow> int \<Rightarrow> unit result" where
  "loop s train_scenes val_scenes epochs start_epoch =
     (let s1 = emit (if lr_scheduler s then replicate (nat start_epoch) SchedulerStep else []) s
      in loop_epochs s1 train_scenes val_scenes epochs [start_epoch..epochs - 1])"

subsection \<open>Floating-point arithmetic\<close>

text \<open>
  The binary formats of IEEE 754, with \<open>p\<close> bits of significand and exponents from
  \<open>emin\<close> to \<open>emax\<close>: \<open>to_float p emin emax x\<close> is the number of the format nearest
  to \<open>x\<close>, the one with the even significand when two are equally near. The exponent
  \<open>e\<close> of \<open>x\<close> is the greatest from \<open>emin\<close> to \<open>emax\<close> with \<open>two_to e \<le> \<bar>x\<bar>\<close>, and
  \<open>emin\<close> for the subnormal numbers and zero; the numbers of the format with that
  exponent are the multiples of \<open>two_to (e - p + 1)\<close>. Beyond the largest number of the
  format IEEE 754 rounds to an infinity, which is no real number: that range is not
  described here.
\<close>

definition round_half_even :: "real \<Rightarrow> int" where
  "round_half_even x =
     (let f = \<lfloor>x\<rfloor> in
      if x - of_int f < 1 / 2 then f
      else if 1 / 2 < x - of_int f then f + 1
      else if even f then f else f + 1)"

definition two_to :: "int \<Rightarrow> real" where
  "two_to e = (if 0 \<le> e then 2 ^ nat e else 1 / 2 ^ nat (- e))"

function float_exponent :: "int \<Rightarrow> int \<Rightarrow> real \<Rightarrow> int" where
  "float_exponent emin e x =
     (if e \<le> emin \<or> two_to e \<le> \<bar>x\<bar> then e else float_exponent emin (e - 1) x)"
  by pat_completeness auto

termination
  by (relation "measure (\<lambda>(emin, e, x). nat (e - emin))") auto

declare float_exponent.simps [simp del]

definition to_float :: "nat \<Rightarrow> int \<Rightarrow> int \<Rightarrow> real \<Rightarrow> real" where
  "to_float p emin emax x =
     (let e = float_exponent emin emax x;
          q = two_to (e - int p + 1)
      in of_int (round_half_even (x / q)) * q)"

definition binary32 :: "real \<Rightarrow> real" where
  "binary32 = to_float 24 (- 126) 127"

definition binary64 :: "real \<Rightarrow> real" where
  "binary64 = to_float 53 (- 1022) 1023"

text \<open>
  Python's floats are binary64. On a tensor of dtype \<open>float32\<close> the scalar operand of
  \<open>mul_\<close> and of \<open>add_\<close> is brought to binary32 first, and every operation rounds its
  result to binary32; \<open>add_\<close> computes \<open>x + alpha * y\<close> either with a rounded product
  (\<open>float32_add\<close>) or, where the kernel uses a fused multiply-add, with one rounding
  only (\<open>float32_fma\<close>).
\<close>

definition float64_sub :: "real \<Rightarrow> real \<Rightarrow> real" where
  "float64_sub x y = binary64 (x - y)"

definition float32_mul :: "real \<Rightarrow> real \<Rightarrow> real" where
  "float32_mul x c = binary32 (x * binary32 c)"

definition float32_add :: "real \<Rightarrow> real \<Rightarrow> real \<Rightarrow> real" where
  "float32_add x alpha y = binary32 (x + binary32 (binary32 alpha * y))"



subsection \<open>A small trainer to run\<close>

text \<open>One head with two sub-losses, 2 and 3, weighted 1/2 and 1; one parameter tensor
  of dtype \<open>float32\<close>; an optimizer that adds 1 to every entry; gradients applied every
  second batch.\<close>

definition example_trainer :: trainer where
  "example_trainer =
     \<lparr> model = (\<lambda>tr ps d. [[d]]),
       model_is_data_parallel = False,
       params = [[1, 2]],
       losses = [\<lambda>ou t. [Some 2, Some 3]],
       optimizer = (\<lambda>tr ps. map (map (\<lambda>x. x + 1)) ps),
       optimizer_lr = (\<lambda>tr. Some (1 / 10)),
       out = ''model.pkl'',
       lr_scheduler = True,
       log_interval = 10,
       device = None,
       fix_batch_norm = False,
       lambdas = [1 / 2, 1],
       stride_apply = 2,
       ema_decay = Some (1 / 2),
       ema = None,
       ema_restore_params = None,
       encoder_visualizer = False,
       model_meta_data = [],
       py_sub = float64_sub,
       mul_entry = float32_mul,
       add_entry = float32_add,
       trace = [] \<rparr>"


definition example_scenes :: "scene list" where
  "example_scenes = [([1], [[[0]]], ''a''), ([2], [[[0]]], ''b''), ([3], [[[0]]], ''c'')]"

definition one_scene :: "scene list" where
  "one_scene = [([1], [[[0]]], ''a'')]"

subsection \<open>Reading a trace\<close>

text \<open>The events that open a training batch, the number of scheduler steps in a list
  of events, and the events before the first training batch.\<close>

fun batch_started :: "event \<Rightarrow> bool" where
  "batch_started (Visualize d t m) = True"
| "batch_started (Forward d) = True"
| "batch_started ev = False"

definition sched_steps :: "event list \<Rightarrow> nat" where
  "sched_steps evs = length (filter (\<lambda>ev. ev = SchedulerStep) evs)"

definition before_first_batch :: "event list \<Rightarrow> event list" where
  "before_first_batch evs = takeWhile (\<lambda>ev. \<not> batch_started ev) evs"

text \<open>What no method of the trainer assigns: everything but the parameters, the
  shadow, the restore buffer and the trace; the arithmetic of the tensors is part of
  it.\<close>

definition same_config :: "trainer \<Rightarrow> trainer \<Rightarrow> bool" where
  "same_config s s' \<longleftrightarrow>
     model s' = model s \<and> model_is_data_parallel s' = model_is_data_parallel s \<and>
     losses s' = losses s \<and> optimizer s' = optimizer s \<and> optimizer_lr s' = optimizer_lr s \<and>
     out s' = out s \<and> lr_scheduler s' = lr_scheduler s \<and> log_interval s' = log_interval s \<and>
     device s' = device s \<and> fix_batch_norm s' = fix_batch_norm s \<and> lambdas s' = lambdas s \<and>
     stride_apply s' = stride_apply s \<and> ema_decay s' = ema_decay s \<and>
     encoder_visualizer s' = encoder_visualizer s \<and> model_meta_data s' = model_meta_data s \<and>
     py_sub s' = py_sub s \<and> mul_entry s' = mul_entry s \<and> add_entry s' = add_entry s"

text \<open>\<open>advances s s'\<close>: \<open>s'\<close> has the configuration of \<open>s\<close> and a trace that continues
  the trace of \<open>s\<close>.\<close>

definition advances :: "trainer \<Rightarrow> trainer \<Rightarrow> bool" where
  "advances s s' \<longleftrightarrow> same_config s s' \<and> prefix (trace s) (trace s')"

text \<open>The checkpoints a list of events writes: file name and epoch of each
  \<open>torch.save\<close>, in order.\<close>

fun saved :: "event list \<Rightarrow> (string \<times> int) list" where
  "saved [] = []"
| "saved (Save f e # evs) = (f, e) # saved evs"
| "saved (ev # evs) = saved evs"

subsection \<open>The steps of \<open>train_batch\<close>\<close>

text \<open>Lines 112 to 120: the visualizer and the forward pass, and what the model
  returns there; lines 122 and 123; lines 125 and 126.\<close>

definition batch_forward :: "trainer \<Rightarrow> data \<Rightarrow> head_target list \<Rightarrow> meta \<Rightarrow> trainer" where
  "batch_forward s d t m =
     emit [Forward d] (if encoder_visualizer s then emit [Visualize d t m] s else s)"

definition batch_outputs ::
  "trainer \<Rightarrow> data \<Rightarrow> head_target list \<Rightarrow> meta \<Rightarrow> head_output list" where
  "batch_outputs s d t m =
     (let s1 = (if encoder_visualizer s then emit [Visualize d t m] s else s)
      in model s1 (trace s1) (params s1) d)"

definition batch_backward :: "trainer \<Rightarrow> real option \<Rightarrow> trainer" where
  "batch_backward s l = (if l \<noteq> None then emit [Backward] s else s)"

definition batch_apply :: "trainer \<Rightarrow> trainer" where
  "batch_apply s =
     (let s4 = emit [OptimizerStep] s;
          s5 = s4\<lparr>params := optimizer s4 (trace s4) (params s4)\<rparr>
      in emit [ZeroGrad] s5)"

subsection \<open>The life of a trainer\<close>

text \<open>
  \<open>__init__\<close> stores its arguments and starts with no shadow and no restore buffer:
  \<open>init cfg\<close> is the trainer it makes of the arguments that \<open>cfg\<close> holds. From then
  on the trainer changes by the calls of its methods; a call that raises leaves it as
  it was when the exception was raised. \<open>lr\<close> only reads.
\<close>

definition init :: "trainer \<Rightarrow> trainer" where
  "init cfg = cfg\<lparr>ema := None, ema_restore_params := None, trace := []\<rparr>"

datatype call =
    Lr
  | StepEma
  | ApplyEma
  | EmaRestore
  | Loop "scene list" "scene list" int int
  | TrainBatch data "head_target list" meta bool
  | ValBatch data "head_target list"
  | Train "scene list" int
  | Val "scene list" int
  | WriteModel int bool

fun perform :: "call \<Rightarrow> trainer \<Rightarrow> trainer" where
  "perform Lr s = s"
| "perform StepEma s = snd (step_ema s)"
| "perform ApplyEma s = apply_ema s"
| "perform EmaRestore s = ema_restore s"
| "perform (Loop train_scenes val_scenes epochs start_epoch) s =
     snd (loop s train_scenes val_scenes epochs start_epoch)"
| "perform (TrainBatch d t m apply_gradients) s = snd (train_batch s d t m apply_gradients)"
| "perform (ValBatch d t) s = snd (val_batch s d t)"
| "perform (Train scenes epoch) s = snd (train s scenes epoch)"
| "perform (Val scenes epoch) s = snd (val s scenes epoch)"
| "perform (WriteModel epoch final) s = write_model s epoch final"

definition calls :: "call list \<Rightarrow> trainer \<Rightarrow> trainer" where
  "calls cs s = fold perform cs s"

text \<open>A restore buffer is held only while there is a shadow.\<close>

definition swap_inv :: "trainer \<Rightarrow> bool" where
  "swap_inv s \<longleftrightarrow> (ema s = None \<longrightarrow> ema_restore_params s = None)"

text \<open>The small trainer with a shadow, after \<open>apply_ema\<close>: its parameters are the
  shadow's, and the restore buffer holds the parameters it had.\<close>

definition swapped_trainer :: trainer where
  "swapped_trainer = apply_ema (example_trainer\<lparr>ema := Some [[5, 6]]\<rparr>)"

text \<open>The events of \<open>train\<close> before its loop.\<close>

definition begin_events :: "trainer \<Rightarrow> int \<Rightarrow> event list" where
  "begin_events s epoch =
     ModelTrain # (if fix_batch_norm s then [FixBatchNorm] else []) @
     (if ema_restore_params s = None then []
      else [Log (LogInfo ''restoring params from before ema'')]) @
     Print epoch # (if lr_scheduler s then [SchedulerStep] else []) @ [ZeroGrad]"

section \<open>Properties\<close>

subsection \<open>Checkpoint paths\<close>

lemma format_03d_7: "format_03d 7 = ''007''"
  by (simp add: format_03d_def zero_pad_def digits.simps numeral_2_eq_2 numeral_3_eq_3)

text \<open>
  C9. Whatever the epoch number, \<open>write_model\<close> with \<open>final\<close> set saves once, to the
  path \<open>out\<close> itself; with \<open>final\<close> unset and epoch 7 it saves once, to \<open>out\<close>
  followed by \<open>.epoch007\<close>.
\<close>

theorem write_model_path:
  "(\<exists>evs. trace (write_model s epoch True) = trace s @ evs \<and> saved evs = [(out s, epoch)]) \<and>
   (\<exists>evs. trace (write_model s 7 False) = trace s @ evs \<and>
          saved evs = [(out s @ ''.epoch007'', 7)])"
  by (simp add: write_model_def emit_def Let_def format_03d_7)

subsection \<open>Applying and restoring the moving average\<close>

lemma length_copy_params: "length (copy_params ps src) = length ps"
  by (simp add: copy_params_def)

lemma copy_params_same_length: "length ps = length src \<Longrightarrow> copy_params ps src = src"
proof -
  assume len: "length ps = length src"
  have "map2 tensor_copy ps src = src"
    using len by (induction ps src rule: list_induct2) (simp_all add: tensor_copy_def)
  then show ?thesis using len by (simp add: copy_params_def)
qed

subsection \<open>The combined loss\<close>






text \<open>
  C2. When the trainer has as many loss functors as the model has outputs (the
  precondition of \<open>loss\<close>, without which no sub-loss is produced), \<open>loss\<close> raises, and
  what it raises is the assertion error, exactly when the number of sub-losses of all
  heads differs from the number of weights; it then returns no total.
\<close>

theorem loss_fails_iff:
  assumes "length (losses s) = length outputs"
  shows "(loss s outputs targets = Inl AssertionError \<longleftrightarrow>
           length (head_losses_of s outputs targets) \<noteq> length (lambdas s)) \<and>
         (isl (loss s outputs targets) \<longleftrightarrow>
           length (head_losses_of s outputs targets) \<noteq> length (lambdas s))"
  using assms by (auto simp: loss_def Let_def)

theorem loss_fails_iff_witness:
  "length (losses (example_trainer\<lparr>lambdas := [1]\<rparr>)) = length [[[1::real]]] \<and>
   length (head_losses_of (example_trainer\<lparr>lambdas := [1]\<rparr>) [[[1]]] [[[0]]]) = 2 \<and>
   length (lambdas (example_trainer\<lparr>lambdas := [1]\<rparr>)) = 1 \<and>
   loss (example_trainer\<lparr>lambdas := [1]\<rparr>) [[[1]]] [[[0]]] = Inl AssertionError"
  using loss_fails_iff [of "example_trainer\<lparr>lambdas := [1]\<rparr>" "[[[1]]]" "[[[0]]]"]
  by (simp add: example_trainer_def head_losses_of_def)



lemma zip_take_right: "zip xs (take (length xs) ys) = zip xs ys"
  by (induction xs ys rule: list_induct2') simp_all

lemma zip_take_left: "zip (take (length ys) xs) ys = zip xs ys"
  by (induction xs ys rule: list_induct2') simp_all

lemma head_losses_of_surplus_targets:
  "head_losses_of s outputs (take (length outputs) targets) = head_losses_of s outputs targets"
  by (simp add: head_losses_of_def zip_take_right)

text \<open>
  C6, as the code has it. A trainer whose number of loss functors differs from the number
  of model outputs fails at once with the assertion error. The number of target groups
  is not compared with anything: heads are paired with targets by \<open>zip\<close>, so target
  groups beyond the last output are ignored, outputs beyond the last target group
  produce no sub-loss, and with as many loss functors as outputs \<open>loss\<close> fails only
  when the sub-losses that were produced are not as many as the weights.
\<close>

theorem loss_count_mismatch:
  "(length (losses s) \<noteq> length outputs \<longrightarrow> loss s outputs targets = Inl AssertionError) \<and>
   loss s outputs (take (length outputs) targets) = loss s outputs targets \<and>
   head_losses_of s (take (length targets) outputs) targets = head_losses_of s outputs targets \<and>
   (length (losses s) = length outputs \<longrightarrow>
      (isl (loss s outputs targets) \<longleftrightarrow>
         length (head_losses_of s outputs targets) \<noteq> length (lambdas s)))"
proof (intro conjI impI)
  assume "length (losses s) \<noteq> length outputs"
  then show "loss s outputs targets = Inl AssertionError" by (simp add: loss_def)
next
  show "loss s outputs (take (length outputs) targets) = loss s outputs targets"
    by (simp add: loss_def head_losses_of_surplus_targets)
next
  show "head_losses_of s (take (length targets) outputs) targets = head_losses_of s outputs targets"
    by (simp add: head_losses_of_def zip_take_left)
next
  assume "length (losses s) = length outputs"
  then show "isl (loss s outputs targets) \<longleftrightarrow>
         length (head_losses_of s outputs targets) \<noteq> length (lambdas s)"
    by (auto simp: loss_def Let_def)
qed

theorem loss_count_mismatch_witness:
  "length (losses example_trainer) \<noteq> length ([] :: head_output list) \<and>
   loss example_trainer [] [] = Inl AssertionError \<and>
   length (losses example_trainer) = length [[[1::real]]] \<and>
   loss example_trainer [[[1]]] (take (length [[[1::real]]]) [[[0]], [[9]]]) =
     loss example_trainer [[[1]]] [[[0]], [[9]]] \<and>
   \<not> isl (loss example_trainer [[[1]]] [[[0]], [[9]]])"
  using loss_count_mismatch [of example_trainer "[]" "[]"]
    loss_count_mismatch [of example_trainer "[[[1]]]" "[[[0]], [[9]]]"]
  by (simp add: example_trainer_def head_losses_of_def)

text \<open>Two target groups for a model with one output and one loss functor: no failure.\<close>

theorem loss_ignores_surplus_targets:
  "length [[[0]], [[9::real]]] \<noteq> length [[[1::real]]] \<and>
   length (losses example_trainer) = length [[[1::real]]] \<and>
   loss example_trainer [[[1]]] [[[0]], [[9]]] = Inr (Some 4, [Some 2, Some 3])"
  by (simp add: loss_def head_losses_of_def weighted_def Let_def py_sum_def example_trainer_def)

subsection \<open>The moving average\<close>











subsection \<open>Rounding to binary32 and binary64\<close>





















subsection \<open>What every method keeps\<close>

lemma advances_refl: "advances s s"
  by (simp add: advances_def same_config_def)

lemma advances_trans: "advances s s' \<Longrightarrow> advances s' s'' \<Longrightarrow> advances s s''"
  by (auto simp: advances_def same_config_def)

lemma advances_emit: "advances s (emit evs s)"
  by (simp add: advances_def same_config_def emit_def)

lemma advances_params: "advances s (s\<lparr>params := p\<rparr>)"
  by (simp add: advances_def same_config_def)

lemma advances_ema: "advances s (s\<lparr>ema := e\<rparr>)"
  by (simp add: advances_def same_config_def)

lemma advances_restore: "advances s (s\<lparr>ema_restore_params := r\<rparr>)"
  by (simp add: advances_def same_config_def)

lemma advances_step_ema: "advances s (snd (step_ema s))"
  by (simp add: step_ema_def advances_refl advances_ema split: option.splits)


lemma advances_apply_ema: "advances s (apply_ema s)"
proof (cases "ema s")
  case None
  then show ?thesis by (simp add: apply_ema_def advances_refl)
next
  case (Some e)
  let ?s1 = "emit [Log (LogInfo ''applying ema'')] s"
  let ?s2 = "?s1\<lparr>ema_restore_params := Some (params ?s1)\<rparr>"
  have "advances s ?s1" by (rule advances_emit)
  then have "advances s ?s2" by (rule advances_trans) (rule advances_restore)
  then have "advances s (?s2\<lparr>params := copy_params (params ?s2) e\<rparr>)"
    by (rule advances_trans) (rule advances_params)
  then show ?thesis using Some by (simp add: apply_ema_def Let_def)
qed

lemma advances_ema_restore: "advances s (ema_restore s)"
proof (cases "ema_restore_params s")
  case None
  then show ?thesis by (simp add: ema_restore_def advances_refl)
next
  case (Some r)
  let ?s1 = "emit [Log (LogInfo ''restoring params from before ema'')] s"
  let ?s2 = "?s1\<lparr>params := copy_params (params ?s1) r\<rparr>"
  have "advances s ?s1" by (rule advances_emit)
  then have "advances s ?s2" by (rule advances_trans) (rule advances_params)
  then have "advances s (?s2\<lparr>ema_restore_params := None\<rparr>)"
    by (rule advances_trans) (rule advances_restore)
  then show ?thesis using Some by (simp add: ema_restore_def Let_def)
qed

lemma advances_train_begin: "advances s (train_begin s epoch)"
proof -
  let ?s1 = "emit (ModelTrain # (if fix_batch_norm s then [FixBatchNorm] else [])) s"
  let ?s2 = "ema_restore ?s1"
  let ?s3 = "?s2\<lparr>ema := None\<rparr>"
  let ?s4 = "emit (Print epoch # (if lr_scheduler ?s3 then [SchedulerStep] else [])) ?s3"
  have "advances s ?s1" by (rule advances_emit)
  then have "advances s ?s2" by (rule advances_trans) (rule advances_ema_restore)
  then have "advances s ?s3" by (rule advances_trans) (rule advances_ema)
  then have "advances s ?s4" by (rule advances_trans) (rule advances_emit)
  then have "advances s (emit [ZeroGrad] ?s4)" by (rule advances_trans) (rule advances_emit)
  then show ?thesis by (simp add: train_begin_def Let_def)
qed

lemma advances_log_batch: "advances s (log_batch s epoch i n l hls)"
  by (simp add: log_batch_def advances_emit advances_refl)

lemma advances_initialize_ema: "advances s (initialize_ema s)"
  by (simp add: initialize_ema_def advances_ema advances_refl)

lemma advances_write_model: "advances s (write_model s epoch final)"
proof -
  let ?s1 = "emit [ModelToCpu] s"
  let ?s2 = "(if model_is_data_parallel ?s1
                then emit [Log (LogDebug ''Writing a dataparallel model.'')] ?s1
                else emit [Log (LogDebug ''Writing a single-thread model.'')] ?s1)"
  let ?f = "(if final then out ?s2 else out ?s2 @ ''.epoch'' @ format_03d epoch)"
  let ?s3 = "emit [Log (LogDebug ''about to write model'')] ?s2"
  let ?s4 = "emit [Save ?f epoch] ?s3"
  let ?s5 = "emit [Log (LogDebug ''model written'')] ?s4"
  have "advances s ?s1" by (rule advances_emit)
  moreover have "advances ?s1 ?s2" by (simp add: advances_emit)
  ultimately have "advances s ?s2" by (rule advances_trans)
  then have "advances s ?s3" by (rule advances_trans) (rule advances_emit)
  then have "advances s ?s4" by (rule advances_trans) (rule advances_emit)
  then have "advances s ?s5" by (rule advances_trans) (rule advances_emit)
  then have "advances s (emit [ModelToDevice] ?s5)" by (rule advances_trans) (rule advances_emit)
  then show ?thesis by (simp add: write_model_def Let_def)
qed

text \<open>The trainer \<open>train_batch\<close> leaves, step by step.\<close>

lemma snd_train_batch:
  "snd (train_batch s d t m ag) =
     (let s1 = (if encoder_visualizer s then emit [Visualize d t m] s else s);
          s2 = emit [Forward d] s1
      in case loss s2 (model s1 (trace s1) (params s1) d) t of
           Inl e \<Rightarrow> s2
         | Inr (l, hls) \<Rightarrow>
             (let s3 = (if l \<noteq> None then emit [Backward] s2 else s2) in
              if ag then
                snd (step_ema (emit [ZeroGrad]
                  ((emit [OptimizerStep] s3)
                     \<lparr>params := optimizer (emit [OptimizerStep] s3)
                        (trace (emit [OptimizerStep] s3)) (params (emit [OptimizerStep] s3))\<rparr>)))
              else s3))"
  by (simp add: train_batch_def Let_def split: sum.splits prod.splits option.splits)

lemma advances_train_batch: "advances s (snd (train_batch s d t m ag))"
proof -
  define s1 where "s1 = (if encoder_visualizer s then emit [Visualize d t m] s else s)"
  define s2 where "s2 = emit [Forward d] s1"
  have "advances s s1" by (simp add: s1_def advances_emit advances_refl)
  then have a2: "advances s s2" unfolding s2_def by (rule advances_trans) (rule advances_emit)
  show ?thesis
  proof (cases "loss s2 (model s1 (trace s1) (params s1) d) t")
    case (Inl e)
    then have "snd (train_batch s d t m ag) = s2"
      unfolding s1_def s2_def by (simp add: snd_train_batch Let_def)
    then show ?thesis using a2 by simp
  next
    case (Inr r)
    obtain l hls where r: "r = (l, hls)" by (cases r)
    define s3 where "s3 = (if l \<noteq> None then emit [Backward] s2 else s2)"
    have "advances s2 s3" by (simp add: s3_def advances_emit advances_refl)
    with a2 have a3: "advances s s3" by (rule advances_trans)
    define s4 where "s4 = emit [OptimizerStep] s3"
    define s6 where "s6 = emit [ZeroGrad] (s4\<lparr>params := optimizer s4 (trace s4) (params s4)\<rparr>)"
    have "advances s3 s4" unfolding s4_def by (rule advances_emit)
    then have "advances s3 (s4\<lparr>params := optimizer s4 (trace s4) (params s4)\<rparr>)"
      by (rule advances_trans) (rule advances_params)
    then have "advances s3 s6" unfolding s6_def by (rule advances_trans) (rule advances_emit)
    then have "advances s3 (snd (step_ema s6))" by (rule advances_trans) (rule advances_step_ema)
    with a3 have a7: "advances s (snd (step_ema s6))" by (rule advances_trans)
    have "snd (train_batch s d t m ag) = (if ag then snd (step_ema s6) else s3)"
      using Inr r unfolding s1_def s2_def s3_def s4_def s6_def
      by (simp add: snd_train_batch Let_def)
    then show ?thesis using a3 a7 by simp
  qed
qed

lemma advances_val_batch: "advances s (snd (val_batch s d t))"
proof -
  have "snd (val_batch s d t) = emit [Forward d] s"
    by (simp add: val_batch_def Let_def split: sum.splits)
  then show ?thesis by (simp add: advances_emit)
qed

subsection \<open>The loop over the batches\<close>

text \<open>One round of the loop: it stops at the division by a zero stride, or fails in or
  after \<open>train_batch\<close>, or goes on with the next batch.\<close>

lemma train_batches_Cons_cases:
  assumes stop: "stride_apply s = 0 \<Longrightarrow>
      (\<And>rest. train_batches s epoch n idx el hel ((d, t, m) # rest) =
         (Inl ZeroDivisionError, s)) \<Longrightarrow> P"
    and fail: "\<And>e. stride_apply s \<noteq> 0 \<Longrightarrow>
      (\<And>rest. train_batches s epoch n idx el hel ((d, t, m) # rest) =
         (Inl e, snd (train_batch s d t m (int idx mod stride_apply s = 0)))) \<Longrightarrow> P"
    and continue: "\<And>l hls hel'. stride_apply s \<noteq> 0 \<Longrightarrow>
      train_batch s d t m (int idx mod stride_apply s = 0) =
        (Inr (l, hls), snd (train_batch s d t m (int idx mod stride_apply s = 0))) \<Longrightarrow>
      add_head_losses hel hls = Inr hel' \<Longrightarrow>
      log_interval (snd (train_batch s d t m (int idx mod stride_apply s = 0))) \<noteq> 0 \<Longrightarrow>
      (\<And>rest. train_batches s epoch n idx el hel ((d, t, m) # rest) =
        train_batches
          (initialize_ema (log_batch (snd (train_batch s d t m (int idx mod stride_apply s = 0)))
             epoch idx n l hls))
          epoch n (Suc idx) (add_loss el l) hel' rest) \<Longrightarrow> P"
  shows P
proof (cases "stride_apply s = 0")
  case True
  then show P using stop by simp
next
  case False
  obtain r1 s1 where tb: "train_batch s d t m (int idx mod stride_apply s = 0) = (r1, s1)"
    by (cases "train_batch s d t m (int idx mod stride_apply s = 0)")
  show P
  proof (cases r1)
    case (Inl e)
    then show P using False tb fail [of e] by simp
  next
    case (Inr p)
    obtain l hls where p: "p = (l, hls)" by (cases p)
    show P
    proof (cases "add_head_losses hel hls")
      case (Inl e)
      then show P using False tb Inr p fail [of e] by simp
    next
      case hel': (Inr hel')
      show P
      proof (cases "log_interval s1 = 0")
        case True
        then show P using False tb Inr p hel' fail [of ZeroDivisionError] by simp
      next
        case nz: False
        show P using False tb Inr p hel' nz continue [of l hls hel'] by (simp add: Let_def)
      qed
    qed
  qed
qed

lemma train_batches_append:
  "train_batches s epoch n idx el hel (xs @ ys) =
     (case train_batches s epoch n idx el hel xs of
        (Inl e, s1) \<Rightarrow> (Inl e, s1)
      | (Inr (el1, hel1), s1) \<Rightarrow> train_batches s1 epoch n (idx + length xs) el1 hel1 ys)"
proof (induction xs arbitrary: s idx el hel)
  case Nil
  show ?case by simp
next
  case (Cons x xs)
  obtain d t m where x: "x = (d, t, m)" by (cases x) auto
  show ?case
  proof (rule train_batches_Cons_cases [of s epoch n idx el hel d t m])
    assume "\<And>rest. train_batches s epoch n idx el hel ((d, t, m) # rest) =
        (Inl ZeroDivisionError, s)"
    then show ?thesis by (simp add: x)
  next
    fix e
    assume "\<And>rest. train_batches s epoch n idx el hel ((d, t, m) # rest) =
        (Inl e, snd (train_batch s d t m (int idx mod stride_apply s = 0)))"
    then show ?thesis by (simp add: x)
  next
    fix l hls hel'
    let ?s1 = "snd (train_batch s d t m (int idx mod stride_apply s = 0))"
    let ?s3 = "initialize_ema (log_batch ?s1 epoch idx n l hls)"
    assume r: "\<And>rest. train_batches s epoch n idx el hel ((d, t, m) # rest) =
          train_batches ?s3 epoch n (Suc idx) (add_loss el l) hel' rest"
    have e1: "train_batches s epoch n idx el hel (x # xs @ ys) =
        (case train_batches ?s3 epoch n (Suc idx) (add_loss el l) hel' xs of
           (Inl e, s1) \<Rightarrow> (Inl e, s1)
         | (Inr (el1, hel1), s1) \<Rightarrow> train_batches s1 epoch n (Suc idx + length xs) el1 hel1 ys)"
      unfolding x using r [of "xs @ ys"] Cons.IH [of ?s3 "Suc idx" "add_loss el l" hel']
      by (simp only:)
    have e2: "train_batches s epoch n idx el hel (x # xs) =
        train_batches ?s3 epoch n (Suc idx) (add_loss el l) hel' xs"
      unfolding x by (rule r)
    have e3: "idx + length (x # xs) = Suc idx + length xs" by simp
    show ?thesis unfolding append_Cons e1 e2 e3 by (rule refl)
  qed
qed

lemma advances_train_batches: "advances s (snd (train_batches s epoch n idx el hel scenes))"
proof (induction scenes arbitrary: s idx el hel)
  case Nil
  show ?case by (simp add: advances_refl)
next
  case (Cons x rest)
  obtain d t m where x: "x = (d, t, m)" by (cases x) auto
  let ?s1 = "snd (train_batch s d t m (int idx mod stride_apply s = 0))"
  have a1: "advances s ?s1" by (rule advances_train_batch)
  show ?case
  proof (rule train_batches_Cons_cases [of s epoch n idx el hel d t m])
    assume "\<And>rest. train_batches s epoch n idx el hel ((d, t, m) # rest) =
        (Inl ZeroDivisionError, s)"
    then show ?thesis by (simp add: x advances_refl)
  next
    fix e
    assume "\<And>rest. train_batches s epoch n idx el hel ((d, t, m) # rest) = (Inl e, ?s1)"
    then show ?thesis using a1 by (simp add: x)
  next
    fix l hls hel'
    let ?s3 = "initialize_ema (log_batch ?s1 epoch idx n l hls)"
    assume r: "\<And>rest. train_batches s epoch n idx el hel ((d, t, m) # rest) =
          train_batches ?s3 epoch n (Suc idx) (add_loss el l) hel' rest"
    have "advances ?s1 ?s3"
      by (rule advances_trans [OF advances_log_batch advances_initialize_ema])
    with a1 have "advances s ?s3" by (rule advances_trans)
    then have "advances s (snd (train_batches ?s3 epoch n (Suc idx) (add_loss el l) hel' rest))"
      by (rule advances_trans) (rule Cons.IH)
    then show ?thesis using r by (simp add: x)
  qed
qed

lemma advances_val_batches: "advances s (snd (val_batches s el hel scenes))"
proof (induction scenes arbitrary: s el hel)
  case Nil
  show ?case by (simp add: advances_refl)
next
  case (Cons x rest)
  obtain d t m where x: "x = (d, t, m)" by (cases x) auto
  obtain r1 s1 where vb: "val_batch s d t = (r1, s1)" by (cases "val_batch s d t")
  have a1: "advances s s1" using advances_val_batch [of s d t] vb by simp
  show ?case
  proof (cases r1)
    case (Inl e)
    then show ?thesis using vb a1 by (simp add: x)
  next
    case (Inr p)
    obtain l hls where p: "p = (l, hls)" by (cases p)
    show ?thesis
    proof (cases "add_head_losses hel hls")
      case (Inl e)
      then show ?thesis using vb Inr p a1 by (simp add: x)
    next
      case hel': (Inr hel')
      have "advances s (snd (val_batches s1 (add_loss el l) hel' rest))"
        using a1 by (rule advances_trans) (rule Cons.IH)
      then show ?thesis using vb Inr p hel' by (simp add: x)
    qed
  qed
qed

lemma train_by_upto:
  "train s scenes epoch =
     (case train_upto s scenes epoch (length scenes) of
        (Inl e, s2) \<Rightarrow> (Inl e, s2)
      | (Inr (epoch_loss, head_epoch_losses), s2) \<Rightarrow>
          if length scenes = 0 then (Inl ZeroDivisionError, apply_ema s2)
          else (Inr (),
                emit [Log (LogTrainEpoch (epoch + 1)
                        (epoch_loss / real (length scenes))
                        (map (\<lambda>l. l / real (length scenes)) head_epoch_losses))] (apply_ema s2)))"
  by (simp add: train_def train_upto_def Let_def split: prod.splits sum.splits)

lemma advances_train_upto: "advances s (snd (train_upto s scenes epoch i))"
  unfolding train_upto_def Let_def
  by (rule advances_trans [OF advances_train_begin advances_train_batches])

lemma advances_train: "advances s (snd (train s scenes epoch))"
proof -
  obtain r s2 where u: "train_upto s scenes epoch (length scenes) = (r, s2)"
    by (cases "train_upto s scenes epoch (length scenes)")
  have a2: "advances s s2" using advances_train_upto [of s scenes epoch "length scenes"] u by simp
  then have a3: "advances s (apply_ema s2)" by (rule advances_trans) (rule advances_apply_ema)
  then have a4: "advances s (emit evs (apply_ema s2))" for evs
    by (rule advances_trans) (rule advances_emit)
  show ?thesis using u a2 a3 a4
    by (simp add: train_by_upto split: sum.splits prod.splits)
qed

lemma advances_val: "advances s (snd (val s scenes epoch))"
proof -
  let ?s1 = "emit [ModelEval] s"
  obtain r s2 where u: "val_batches ?s1 0 (replicate (length (lambdas ?s1)) 0) scenes = (r, s2)"
    by (cases "val_batches ?s1 0 (replicate (length (lambdas ?s1)) 0) scenes")
  have "advances ?s1 s2"
    using advances_val_batches [of ?s1 0 "replicate (length (lambdas ?s1)) 0" scenes] u by simp
  with advances_emit have a2: "advances s s2" by (rule advances_trans)
  then have a4: "advances s (emit evs s2)" for evs
    by (rule advances_trans) (rule advances_emit)
  show ?thesis using u a2 a4
    by (simp add: val_def Let_def split: sum.splits prod.splits)
qed

lemma advances_loop_epochs:
  "advances s (snd (loop_epochs s train_scenes val_scenes epochs es))"
proof (induction es arbitrary: s)
  case Nil
  show ?case by (simp add: advances_refl)
next
  case (Cons epoch rest)
  obtain r1 s1 where t: "train s train_scenes epoch = (r1, s1)"
    by (cases "train s train_scenes epoch")
  have a1: "advances s s1" using advances_train [of s train_scenes epoch] t by simp
  let ?s2 = "write_model s1 (epoch + 1) (epoch = epochs - 1)"
  have a2: "advances s ?s2" using a1 by (rule advances_trans) (rule advances_write_model)
  obtain r3 s3 where v: "val ?s2 val_scenes (epoch + 1) = (r3, s3)"
    by (cases "val ?s2 val_scenes (epoch + 1)")
  have "advances ?s2 s3" using advances_val [of ?s2 val_scenes "epoch + 1"] v by simp
  with a2 have a3: "advances s s3" by (rule advances_trans)
  then have a4: "advances s (snd (loop_epochs s3 train_scenes val_scenes epochs rest))"
    by (rule advances_trans) (rule Cons.IH)
  show ?case using t v a1 a3 a4 by (simp add: Let_def split: sum.splits)
qed

subsection \<open>What one batch does\<close>

lemma train_batch_steps:
  "train_batch s d t m ag =
     (case loss (batch_forward s d t m) (batch_outputs s d t m) t of
        Inl e \<Rightarrow> (Inl e, batch_forward s d t m)
      | Inr (l, hls) \<Rightarrow>
          if ag then
            (case step_ema (batch_apply (batch_backward (batch_forward s d t m) l)) of
               (Some e, s7) \<Rightarrow> (Inl e, s7)
             | (None, s7) \<Rightarrow> (Inr (l, hls), s7))
          else (Inr (l, hls), batch_backward (batch_forward s d t m) l))"
  by (simp add: train_batch_def batch_forward_def batch_outputs_def batch_backward_def
      batch_apply_def Let_def split: sum.splits prod.splits)

lemma advances_config:
  assumes "advances s s'"
  shows "stride_apply s' = stride_apply s" "log_interval s' = log_interval s"
    "ema_decay s' = ema_decay s" "lr_scheduler s' = lr_scheduler s" "lambdas s' = lambdas s"
  using assms by (simp_all add: advances_def same_config_def)

lemma advances_trace: "advances s s' \<Longrightarrow> \<exists>evs. trace s' = trace s @ evs"
  by (auto simp: advances_def prefix_def)

lemma step_ema_keeps: "trace (snd (step_ema s)) = trace s" "params (snd (step_ema s)) = params s"
  by (simp_all add: step_ema_def split: option.splits)

lemma step_ema_ema_cong:
  "ema a = ema b \<Longrightarrow> ema_decay a = ema_decay b \<Longrightarrow> params a = params b \<Longrightarrow>
   py_sub a = py_sub b \<Longrightarrow> mul_entry a = mul_entry b \<Longrightarrow> add_entry a = add_entry b \<Longrightarrow>
     ema (snd (step_ema a)) = ema (snd (step_ema b))"
  by (simp add: step_ema_def shadow_step_def split: option.splits)

lemma step_ema_None: "ema s = None \<Longrightarrow> snd (step_ema s) = s"
  by (simp add: step_ema_def)

lemma step_ema_not_None: "ema s \<noteq> None \<Longrightarrow> ema (snd (step_ema s)) \<noteq> None"
  by (auto simp: step_ema_def split: option.splits)

lemma emit_keeps: "params (emit evs s) = params s" "ema (emit evs s) = ema s"
  "ema_restore_params (emit evs s) = ema_restore_params s" "trace (emit evs s) = trace s @ evs"
  "ema_decay (emit evs s) = ema_decay s"
  "py_sub (emit evs s) = py_sub s" "mul_entry (emit evs s) = mul_entry s"
  "add_entry (emit evs s) = add_entry s"
  by (simp_all add: emit_def)

lemma batch_forward_keeps:
  "params (batch_forward s d t m) = params s" "ema (batch_forward s d t m) = ema s"
  "ema_decay (batch_forward s d t m) = ema_decay s"
  "trace (batch_forward s d t m) =
     trace s @ (if encoder_visualizer s then [Visualize d t m] else []) @ [Forward d]"
  "py_sub (batch_forward s d t m) = py_sub s" "mul_entry (batch_forward s d t m) = mul_entry s"
  "add_entry (batch_forward s d t m) = add_entry s"
  by (simp_all add: batch_forward_def emit_keeps)

lemma batch_backward_keeps:
  "params (batch_backward s l) = params s" "ema (batch_backward s l) = ema s"
  "ema_decay (batch_backward s l) = ema_decay s"
  "trace (batch_backward s l) = trace s @ (if l \<noteq> None then [Backward] else [])"
  "py_sub (batch_backward s l) = py_sub s" "mul_entry (batch_backward s l) = mul_entry s"
  "add_entry (batch_backward s l) = add_entry s"
  by (simp_all add: batch_backward_def emit_keeps)

lemma batch_apply_keeps:
  "ema (batch_apply s) = ema s" "ema_decay (batch_apply s) = ema_decay s"
  "trace (batch_apply s) = trace s @ [OptimizerStep, ZeroGrad]"
  "py_sub (batch_apply s) = py_sub s" "mul_entry (batch_apply s) = mul_entry s"
  "add_entry (batch_apply s) = add_entry s"
  by (simp_all add: batch_apply_def emit_def Let_def)

lemma snd_train_batch_steps:
  "snd (train_batch s d t m ag) =
     (case loss (batch_forward s d t m) (batch_outputs s d t m) t of
        Inl e \<Rightarrow> batch_forward s d t m
      | Inr (l, hls) \<Rightarrow>
          if ag then snd (step_ema (batch_apply (batch_backward (batch_forward s d t m) l)))
          else batch_backward (batch_forward s d t m) l)"
  by (simp add: train_batch_steps split: sum.splits prod.splits option.splits)

lemma train_batch_ema_None:
  "ema s = None \<Longrightarrow> ema (snd (train_batch s d t m ag)) = None"
  by (simp add: snd_train_batch_steps batch_forward_keeps batch_backward_keeps batch_apply_keeps
      step_ema_None split: sum.splits prod.splits)

lemma train_batch_no_apply:
  "params (snd (train_batch s d t m False)) = params s"
  "ema (snd (train_batch s d t m False)) = ema s"
  by (simp_all add: snd_train_batch_steps batch_forward_keeps batch_backward_keeps
      split: sum.splits prod.splits)

lemma train_batch_apply_ema:
  assumes "train_batch s d t m True = (Inr r, s')"
  shows "ema s' = ema (snd (step_ema (s\<lparr>params := params s'\<rparr>)))"
proof -
  from assms obtain l hls where
    l: "loss (batch_forward s d t m) (batch_outputs s d t m) t = Inr (l, hls)"
    by (auto simp: train_batch_steps split: sum.splits prod.splits)
  let ?s6 = "batch_apply (batch_backward (batch_forward s d t m) l)"
  have s': "s' = snd (step_ema ?s6)"
    using assms l by (auto simp: train_batch_steps split: prod.splits option.splits)
  have "ema (snd (step_ema ?s6)) = ema (snd (step_ema (s\<lparr>params := params ?s6\<rparr>)))"
    by (rule step_ema_ema_cong)
      (simp_all add: batch_forward_keeps batch_backward_keeps batch_apply_keeps)
  then show ?thesis by (simp add: s' step_ema_keeps)
qed

lemma train_batch_events:
  "\<exists>evs. trace (snd (train_batch s d t m ag)) =
           trace s @ (if encoder_visualizer s then [Visualize d t m] else []) @ Forward d # evs \<and>
         (OptimizerStep \<in> set evs \<or> ZeroGrad \<in> set evs \<longrightarrow> ag) \<and>
         (ag \<and> \<not> isl (fst (train_batch s d t m ag)) \<longrightarrow>
            OptimizerStep \<in> set evs \<and> ZeroGrad \<in> set evs)"
proof (cases "loss (batch_forward s d t m) (batch_outputs s d t m) t")
  case (Inl e)
  then have "trace (snd (train_batch s d t m ag)) =
      trace s @ (if encoder_visualizer s then [Visualize d t m] else []) @ Forward d # []"
    "isl (fst (train_batch s d t m ag))"
    by (simp_all add: train_batch_steps batch_forward_keeps)
  then show ?thesis by (intro exI [of _ "[]"]) simp
next
  case (Inr p)
  obtain l hls where p: "p = (l, hls)" by (cases p)
  let ?bw = "if l \<noteq> None then [Backward] else []"
  show ?thesis
  proof (cases ag)
    case False
    then have "trace (snd (train_batch s d t m ag)) =
        trace s @ (if encoder_visualizer s then [Visualize d t m] else []) @ Forward d # ?bw"
      using Inr p by (simp add: snd_train_batch_steps batch_forward_keeps batch_backward_keeps)
    then show ?thesis using False by (intro exI [of _ ?bw]) simp
  next
    case True
    then have "trace (snd (train_batch s d t m ag)) =
        trace s @ (if encoder_visualizer s then [Visualize d t m] else []) @
          Forward d # (?bw @ [OptimizerStep, ZeroGrad])"
      using Inr p
      by (simp add: snd_train_batch_steps batch_forward_keeps batch_backward_keeps
          batch_apply_keeps step_ema_keeps)
    then show ?thesis using True by (intro exI [of _ "?bw @ [OptimizerStep, ZeroGrad]"]) simp
  qed
qed

subsection \<open>The start of an epoch and its first batch\<close>

lemma train_begin_ema: "ema (train_begin s epoch) = None"
  by (simp add: train_begin_def emit_def Let_def)

lemma train_begin_restore: "ema_restore_params (train_begin s epoch) = None"
  by (simp add: train_begin_def emit_def ema_restore_def Let_def split: option.splits)

lemma train_begin_params: "params (train_begin s epoch) = params (ema_restore s)"
  by (simp add: train_begin_def emit_def ema_restore_def Let_def split: option.splits)

lemma log_batch_keeps:
  "params (log_batch s epoch i n l hls) = params s" "ema (log_batch s epoch i n l hls) = ema s"
  by (simp_all add: log_batch_def emit_keeps)

lemma initialize_ema_params: "params (initialize_ema s) = params s"
  by (simp add: initialize_ema_def)

lemma initialize_ema_trace: "trace (initialize_ema s) = trace s"
  by (simp add: initialize_ema_def)

lemma initialize_ema_seeds:
  "ema s = None \<Longrightarrow> truthy (ema_decay s) \<Longrightarrow> ema (initialize_ema s) = Some (params s)"
  by (simp add: initialize_ema_def)

lemma initialize_ema_set: "ema s \<noteq> None \<Longrightarrow> initialize_ema s = s"
  by (simp add: initialize_ema_def)

lemma train_upto_0:
  "train_upto s scenes epoch 0 =
     (Inr (0, replicate (length (lambdas s)) 0), train_begin s epoch)"
  using advances_config(5) [OF advances_train_begin [of s epoch]]
  by (simp add: train_upto_def Let_def)

lemma train_begin_nothing_pending:
  "ema_restore_params s = None \<Longrightarrow> params (train_begin s epoch) = params s"
  by (simp add: train_begin_params ema_restore_def)

lemma train_begin_pending:
  "ema_restore_params s = Some r \<Longrightarrow> length r = length (params s) \<Longrightarrow>
     params (train_begin s epoch) = r"
  by (simp add: train_begin_params ema_restore_def emit_def Let_def copy_params_same_length)

text \<open>
  C8. With a decay constant that is set and not zero: when \<open>train\<close> reaches its loop,
  a pending swap has been undone (the parameters are those of the restore buffer, when
  there was one, and are untouched when there was none), the restore buffer is empty
  and the shadow is unset; whatever the first batch is, \<open>train_batch\<close> leaves the
  shadow unset; and once the first round of the loop is complete, the shadow is a copy
  of the parameters as the first batch's gradient step left them.
\<close>

theorem ema_seeded_after_first_batch:
  assumes "truthy (ema_decay s)"
  shows "train_upto s scenes epoch 0 =
           (Inr (0, replicate (length (lambdas s)) 0), train_begin s epoch) \<and>
         (ema_restore_params s = None \<longrightarrow> params (train_begin s epoch) = params s) \<and>
         (ema_restore_params s = Some r \<and> length r = length (params s) \<longrightarrow>
            params (train_begin s epoch) = r) \<and>
         ema (train_begin s epoch) = None \<and>
         ema_restore_params (train_begin s epoch) = None \<and>
         params (train_begin s epoch) = params (ema_restore s) \<and>
         ema (snd (train_batch (train_begin s epoch) d t m ag)) = None \<and>
         (scenes = (d, t, m) # rest \<and> train_upto s scenes epoch 1 = (Inr acc, s1) \<longrightarrow>
            params s1 = params (snd (train_batch (train_begin s epoch) d t m True)) \<and>
            ema s1 = Some (params s1))"
proof (intro conjI impI)
  show "train_upto s scenes epoch 0 =
      (Inr (0, replicate (length (lambdas s)) 0), train_begin s epoch)"
    by (rule train_upto_0)
  show "ema_restore_params s = None \<Longrightarrow> params (train_begin s epoch) = params s"
    by (rule train_begin_nothing_pending)
  show "ema_restore_params s = Some r \<and> length r = length (params s) \<Longrightarrow>
      params (train_begin s epoch) = r"
    by (simp add: train_begin_pending)
  show "ema (train_begin s epoch) = None" by (rule train_begin_ema)
  show "ema_restore_params (train_begin s epoch) = None" by (rule train_begin_restore)
  show "params (train_begin s epoch) = params (ema_restore s)" by (rule train_begin_params)
  show "ema (snd (train_batch (train_begin s epoch) d t m ag)) = None"
    by (rule train_batch_ema_None) (rule train_begin_ema)
next
  assume a: "scenes = (d, t, m) # rest \<and> train_upto s scenes epoch 1 = (Inr acc, s1)"
  let ?sb = "train_begin s epoch"
  let ?hel = "replicate (length (lambdas ?sb)) (0::real)"
  let ?tb = "snd (train_batch ?sb d t m (int 0 mod stride_apply ?sb = 0))"
  have tk: "take 1 scenes = [(d, t, m)]" using a by simp
  from a [THEN conjunct2]
  have run: "train_batches ?sb epoch (length scenes) 0 0 ?hel [(d, t, m)] = (Inr acc, s1)"
    unfolding train_upto_def Let_def tk .
  have "params s1 = params (snd (train_batch ?sb d t m True)) \<and> ema s1 = Some (params s1)"
  proof (rule train_batches_Cons_cases [of ?sb epoch "length scenes" 0 0 ?hel d t m])
    assume "\<And>rest. train_batches ?sb epoch (length scenes) 0 0 ?hel ((d, t, m) # rest) =
        (Inl ZeroDivisionError, ?sb)"
    with run show ?thesis by simp
  next
    fix e
    assume "\<And>rest. train_batches ?sb epoch (length scenes) 0 0 ?hel ((d, t, m) # rest) =
        (Inl e, ?tb)"
    with run show ?thesis by simp
  next
    fix l hls hel'
    let ?s2 = "log_batch ?tb epoch 0 (length scenes) l hls"
    assume "\<And>rest. train_batches ?sb epoch (length scenes) 0 0 ?hel ((d, t, m) # rest) =
        train_batches (initialize_ema ?s2) epoch (length scenes) (Suc 0) (add_loss 0 l) hel' rest"
    from this [of "[]"] run have s1: "s1 = initialize_ema ?s2" by simp
    have tb: "?tb = snd (train_batch ?sb d t m True)" by simp
    have "advances s ?sb" by (rule advances_train_begin)
    then have "advances s ?tb" by (rule advances_trans) (rule advances_train_batch)
    then have "advances s ?s2" by (rule advances_trans) (rule advances_log_batch)
    then have decay: "truthy (ema_decay ?s2)" using assms by (simp only: advances_config(3))
    have "ema ?tb = None" by (rule train_batch_ema_None) (rule train_begin_ema)
    then have unset: "ema ?s2 = None" by (simp only: log_batch_keeps)
    have "ema s1 = Some (params ?s2)" unfolding s1 using unset decay by (rule initialize_ema_seeds)
    moreover have "params s1 = params ?s2" unfolding s1 by (rule initialize_ema_params)
    moreover have "params ?s2 = params (snd (train_batch ?sb d t m True))"
      by (simp only: log_batch_keeps tb)
    ultimately show ?thesis by simp
  qed
  then show "params s1 = params (snd (train_batch ?sb d t m True))" "ema s1 = Some (params s1)"
    by simp_all
qed

subsection \<open>The epoch summaries\<close>

text \<open>
  C10. On an empty dataset \<open>train\<close> and \<open>val\<close> raise the division by zero and log no
  summary: \<open>train\<close> leaves the trainer as it was when its loop began, \<open>val\<close> as it was
  after the switch to evaluation mode. On a dataset that is not empty the batch count is
  not zero, and once all batches are through, both log the running sums divided by it
  and return.
\<close>

theorem empty_dataset_fails:
  "train s [] epoch = (Inl ZeroDivisionError, train_begin s epoch) \<and>
   val s [] epoch = (Inl ZeroDivisionError, emit [ModelEval] s) \<and>
   (scenes \<noteq> [] \<and> train_upto s scenes epoch (length scenes) = (Inr (el, hel), s2) \<longrightarrow>
      real (length scenes) \<noteq> 0 \<and>
      train s scenes epoch =
        (Inr (), emit [Log (LogTrainEpoch (epoch + 1) (el / real (length scenes))
                         (map (\<lambda>l. l / real (length scenes)) hel))] (apply_ema s2))) \<and>
   (scenes \<noteq> [] \<and>
    val_batches (emit [ModelEval] s) 0 (replicate (length (lambdas s)) 0) scenes
      = (Inr (el, hel), s2) \<longrightarrow>
      real (length scenes) \<noteq> 0 \<and>
      val s scenes epoch =
        (Inr (), emit [Log (LogValEpoch epoch (el / real (length scenes))
                         (map (\<lambda>l. l / real (length scenes)) hel))] s2))"
proof (intro conjI impI)
  show "train s [] epoch = (Inl ZeroDivisionError, train_begin s epoch)"
    by (simp add: train_def apply_ema_def train_begin_ema)
  show "val s [] epoch = (Inl ZeroDivisionError, emit [ModelEval] s)"
    by (simp add: val_def)
next
  assume "scenes \<noteq> [] \<and> train_upto s scenes epoch (length scenes) = (Inr (el, hel), s2)"
  then show "real (length scenes) \<noteq> 0" by simp
next
  assume "scenes \<noteq> [] \<and> train_upto s scenes epoch (length scenes) = (Inr (el, hel), s2)"
  then show "train s scenes epoch =
        (Inr (), emit [Log (LogTrainEpoch (epoch + 1) (el / real (length scenes))
                         (map (\<lambda>l. l / real (length scenes)) hel))] (apply_ema s2))"
    by (simp add: train_by_upto)
next
  assume "scenes \<noteq> [] \<and>
    val_batches (emit [ModelEval] s) 0 (replicate (length (lambdas s)) 0) scenes
      = (Inr (el, hel), s2)"
  then show "real (length scenes) \<noteq> 0" by simp
next
  assume "scenes \<noteq> [] \<and>
    val_batches (emit [ModelEval] s) 0 (replicate (length (lambdas s)) 0) scenes
      = (Inr (el, hel), s2)"
  then show "val s scenes epoch =
        (Inr (), emit [Log (LogValEpoch epoch (el / real (length scenes))
                         (map (\<lambda>l. l / real (length scenes)) hel))] s2)"
    by (simp add: val_def Let_def emit_def)
qed

subsection \<open>The small trainer, run\<close>

lemma example_loss: "loss (example_trainer\<lparr>params := p, ema := e, trace := tr\<rparr>) [[d]] [[[0]]] =
    Inr (Some 4, [Some 2, Some 3])"
  by (simp add: loss_def head_losses_of_def weighted_def py_sum_def example_trainer_def)

lemma example_upto_1:
  "train_upto example_trainer one_scene 0 1 =
     (Inr (4, [2, 3]),
      example_trainer\<lparr>params := [[2, 3]], ema := Some [[2, 3]],
        trace := [ModelTrain, Print 0, SchedulerStep, ZeroGrad, Forward [1], Backward,
                  OptimizerStep, ZeroGrad,
                  Log (LogTrain 0 0 1 (Some (1 / 10)) (Some 4) [Some 2, Some 3])]\<rparr>)"
  by (simp add: train_upto_def one_scene_def train_begin_def ema_restore_def emit_def
      example_trainer_def train_batch_def loss_def head_losses_of_def weighted_def py_sum_def
      step_ema_def add_loss_def log_batch_def initialize_ema_def Let_def)

lemma example_val_batches:
  "val_batches (emit [ModelEval] example_trainer) 0
       (replicate (length (lambdas example_trainer)) 0) one_scene =
     (Inr (4, [2, 3]), example_trainer\<lparr>trace := [ModelEval, Forward [1]]\<rparr>)"
  by (simp add: one_scene_def emit_def example_trainer_def val_batch_def loss_def
      head_losses_of_def weighted_def py_sum_def add_loss_def Let_def)


lemma swapped_trainer_fields:
  "ema_restore_params swapped_trainer = Some [[1, 2]]" "params swapped_trainer = [[5, 6]]"
  "ema swapped_trainer = Some [[5, 6]]" "truthy (ema_decay swapped_trainer)"
  by (simp_all add: swapped_trainer_def example_trainer_def apply_ema_def emit_def Let_def
      copy_params_def tensor_copy_def)

lemma swapped_upto_1:
  "train_upto swapped_trainer one_scene 0 1 =
     (Inr (4, [2, 3]),
      example_trainer\<lparr>params := [[2, 3]], ema := Some [[2, 3]],
        trace := [Log (LogInfo ''applying ema''), ModelTrain,
                  Log (LogInfo ''restoring params from before ema''),
                  Print 0, SchedulerStep, ZeroGrad, Forward [1], Backward,
                  OptimizerStep, ZeroGrad,
                  Log (LogTrain 0 0 1 (Some (1 / 10)) (Some 4) [Some 2, Some 3])]\<rparr>)"
  by (simp add: swapped_trainer_def apply_ema_def copy_params_def tensor_copy_def
      train_upto_def one_scene_def train_begin_def ema_restore_def emit_def
      example_trainer_def train_batch_def loss_def head_losses_of_def weighted_def py_sum_def
      step_ema_def add_loss_def log_batch_def initialize_ema_def Let_def)

theorem ema_seeded_after_first_batch_witness:
  "truthy (ema_decay swapped_trainer) \<and>
   ema swapped_trainer = Some [[5, 6]] \<and>
   params swapped_trainer = [[5, 6]] \<and>
   ema_restore_params swapped_trainer = Some [[1, 2]] \<and>
   length [[1, 2 :: real]] = length (params swapped_trainer) \<and>
   params (train_begin swapped_trainer 0) = [[1, 2]] \<and>
   ema (train_begin swapped_trainer 0) = None \<and>
   ema_restore_params (train_begin swapped_trainer 0) = None \<and>
   one_scene = ([1], [[[0]]], ''a'') # [] \<and>
   fst (train_upto swapped_trainer one_scene 0 1) = Inr (4, [2, 3]) \<and>
   params (snd (train_upto swapped_trainer one_scene 0 1)) = [[2, 3]] \<and>
   ema (snd (train_upto swapped_trainer one_scene 0 1)) = Some [[2, 3]]"
proof -
  note f = swapped_trainer_fields
  have len: "length [[1, 2 :: real]] = length (params swapped_trainer)" by (simp add: f(2))
  note th = ema_seeded_after_first_batch [OF f(4), of one_scene 0 "[[1, 2]]" "[1]" "[[[0]]]"
      "''a''" True "[]" "(4, [2, 3])" "snd (train_upto swapped_trainer one_scene 0 1)"]
  have run: "train_upto swapped_trainer one_scene 0 1 =
      (Inr (4, [2, 3]), snd (train_upto swapped_trainer one_scene 0 1))"
    by (simp only: swapped_upto_1 snd_conv)
  have sc: "one_scene = ([1], [[[0]]], ''a'') # []" by (simp add: one_scene_def)
  from th f(1) len have restored: "params (train_begin swapped_trainer 0) = [[1, 2]]"
    by blast
  from th have unset: "ema (train_begin swapped_trainer 0) = None"
    "ema_restore_params (train_begin swapped_trainer 0) = None"
    by blast+
  from th sc run have seeded:
    "ema (snd (train_upto swapped_trainer one_scene 0 1)) =
       Some (params (snd (train_upto swapped_trainer one_scene 0 1)))"
    by blast
  have p: "params (snd (train_upto swapped_trainer one_scene 0 1)) = [[2, 3]]"
    unfolding swapped_upto_1 by simp
  have r: "fst (train_upto swapped_trainer one_scene 0 1) = Inr (4, [2, 3])"
    by (simp only: swapped_upto_1 fst_conv)
  have e: "ema (snd (train_upto swapped_trainer one_scene 0 1)) = Some [[2, 3]]"
    using seeded by (simp only: p)
  show ?thesis using f len restored unset sc r p e by blast
qed

theorem empty_dataset_fails_witness:
  "one_scene \<noteq> [] \<and>
   fst (train_upto example_trainer one_scene 0 (length one_scene)) = Inr (4, [2, 3]) \<and>
   fst (train example_trainer one_scene 0) = Inr () \<and>
   fst (val example_trainer one_scene 1) = Inr () \<and>
   fst (train example_trainer [] 0) = Inl ZeroDivisionError \<and>
   fst (val example_trainer [] 1) = Inl ZeroDivisionError"
proof -
  have ne: "one_scene \<noteq> []" and len: "length one_scene = 1" by (simp_all add: one_scene_def)
  have run: "train_upto example_trainer one_scene 0 (length one_scene) =
      (Inr (4, [2, 3]), snd (train_upto example_trainer one_scene 0 (length one_scene)))"
    by (simp only: len example_upto_1 snd_conv)
  have vrun: "val_batches (emit [ModelEval] example_trainer) 0
       (replicate (length (lambdas example_trainer)) 0) one_scene =
     (Inr (4, [2, 3]), example_trainer\<lparr>trace := [ModelEval, Forward [1]]\<rparr>)"
    by (rule example_val_batches)
  note t1 = empty_dataset_fails [of example_trainer 0 one_scene 4 "[2, 3]"
      "snd (train_upto example_trainer one_scene 0 (length one_scene))"]
  note t2 = empty_dataset_fails [of example_trainer 1 one_scene 4 "[2, 3]"
      "example_trainer\<lparr>trace := [ModelEval, Forward [1]]\<rparr>"]
  note t3 = empty_dataset_fails [of example_trainer 0 "[]" 0 "[]" example_trainer]
  have "fst (train example_trainer one_scene 0) = Inr ()" using t1 ne run by simp
  moreover have "fst (val example_trainer one_scene 1) = Inr ()" using t2 ne vrun by simp
  moreover have "fst (train example_trainer [] 0) = Inl ZeroDivisionError" using t3 by simp
  moreover have "fst (val example_trainer [] 1) = Inl ZeroDivisionError" using t2 by simp
  moreover have "fst (train_upto example_trainer one_scene 0 (length one_scene)) = Inr (4, [2, 3])"
    by (simp only: len example_upto_1 fst_conv)
  ultimately show ?thesis using ne by blast
qed

subsection \<open>The restore buffer over the life of a trainer\<close>

lemma swap_inv_fields:
  "ema s' = ema s \<Longrightarrow> ema_restore_params s' = ema_restore_params s \<Longrightarrow> swap_inv s \<Longrightarrow>
     swap_inv s'"
  by (simp add: swap_inv_def)

lemma swap_inv_init: "swap_inv (init cfg)"
  by (simp add: swap_inv_def init_def)

lemma swap_inv_emit: "swap_inv s \<Longrightarrow> swap_inv (emit evs s)"
  by (simp add: swap_inv_def emit_keeps)

lemma step_ema_restore: "ema_restore_params (snd (step_ema s)) = ema_restore_params s"
  by (simp add: step_ema_def split: option.splits)

lemma swap_inv_step_ema: "swap_inv s \<Longrightarrow> swap_inv (snd (step_ema s))"
proof (cases "ema s")
  case None
  assume "swap_inv s"
  then show ?thesis using None by (simp add: step_ema_None)
next
  case (Some e)
  then have "ema (snd (step_ema s)) \<noteq> None" by (simp add: step_ema_not_None)
  then show ?thesis unfolding swap_inv_def by blast
qed

lemma swap_inv_apply_ema: "swap_inv s \<Longrightarrow> swap_inv (apply_ema s)"
  by (simp add: apply_ema_def swap_inv_def emit_def Let_def split: option.splits)

lemma swap_inv_ema_restore: "swap_inv (ema_restore s)"
  by (simp add: ema_restore_def swap_inv_def emit_def Let_def split: option.splits)

lemma batch_restore_keeps:
  "ema_restore_params (batch_forward s d t m) = ema_restore_params s"
  "ema_restore_params (batch_backward s l) = ema_restore_params s"
  "ema_restore_params (batch_apply s) = ema_restore_params s"
  by (simp_all add: batch_forward_def batch_backward_def batch_apply_def emit_def Let_def)

lemma swap_inv_train_batch:
  assumes "swap_inv s"
  shows "swap_inv (snd (train_batch s d t m ag))"
proof -
  have k1: "swap_inv (batch_forward s d t m)"
    using _ _ assms by (rule swap_inv_fields) (simp_all add: batch_forward_keeps batch_restore_keeps)
  have k2: "swap_inv (batch_backward (batch_forward s d t m) l)" for l
    using _ _ k1 by (rule swap_inv_fields) (simp_all add: batch_backward_keeps batch_restore_keeps)
  have "swap_inv (batch_apply (batch_backward (batch_forward s d t m) l))" for l
    using _ _ k2 [of l] by (rule swap_inv_fields) (simp_all add: batch_apply_keeps batch_restore_keeps)
  then have k3: "swap_inv (snd (step_ema (batch_apply (batch_backward (batch_forward s d t m) l))))"
    for l by (rule swap_inv_step_ema)
  show ?thesis
    by (simp add: snd_train_batch_steps k1 k2 k3 split: sum.splits prod.splits)
qed

lemma swap_inv_log_batch: "swap_inv s \<Longrightarrow> swap_inv (log_batch s epoch i n l hls)"
  by (simp add: log_batch_def swap_inv_emit)

lemma swap_inv_initialize_ema: "swap_inv s \<Longrightarrow> swap_inv (initialize_ema s)"
  by (simp add: initialize_ema_def swap_inv_def)

lemma swap_inv_train_begin: "swap_inv (train_begin s epoch)"
  by (simp add: swap_inv_def train_begin_restore)

lemma swap_inv_train_batches:
  "swap_inv s \<Longrightarrow> swap_inv (snd (train_batches s epoch n idx el hel scenes))"
proof (induction scenes arbitrary: s idx el hel)
  case Nil
  then show ?case by simp
next
  case (Cons x rest)
  obtain d t m where x: "x = (d, t, m)" by (cases x) auto
  let ?s1 = "snd (train_batch s d t m (int idx mod stride_apply s = 0))"
  have a1: "swap_inv ?s1" using Cons.prems by (rule swap_inv_train_batch)
  show ?case
  proof (rule train_batches_Cons_cases [of s epoch n idx el hel d t m])
    assume "\<And>rest. train_batches s epoch n idx el hel ((d, t, m) # rest) =
        (Inl ZeroDivisionError, s)"
    then show ?thesis using Cons.prems by (simp add: x)
  next
    fix e
    assume "\<And>rest. train_batches s epoch n idx el hel ((d, t, m) # rest) = (Inl e, ?s1)"
    then show ?thesis using a1 by (simp add: x)
  next
    fix l hls hel'
    let ?s3 = "initialize_ema (log_batch ?s1 epoch idx n l hls)"
    assume r: "\<And>rest. train_batches s epoch n idx el hel ((d, t, m) # rest) =
          train_batches ?s3 epoch n (Suc idx) (add_loss el l) hel' rest"
    have "swap_inv ?s3"
      using a1 by (intro swap_inv_initialize_ema swap_inv_log_batch)
    then have "swap_inv (snd (train_batches ?s3 epoch n (Suc idx) (add_loss el l) hel' rest))"
      by (rule Cons.IH)
    then show ?thesis using r by (simp add: x)
  qed
qed

lemma swap_inv_train: "swap_inv (snd (train s scenes epoch))"
proof -
  obtain r s2 where u: "train_upto s scenes epoch (length scenes) = (r, s2)"
    by (cases "train_upto s scenes epoch (length scenes)")
  have "swap_inv (snd (train_upto s scenes epoch (length scenes)))"
    unfolding train_upto_def Let_def
    by (rule swap_inv_train_batches) (rule swap_inv_train_begin)
  then have a2: "swap_inv s2" using u by simp
  then have a3: "swap_inv (apply_ema s2)" by (rule swap_inv_apply_ema)
  then have a4: "swap_inv (emit evs (apply_ema s2))" for evs by (rule swap_inv_emit)
  show ?thesis using u a2 a3 a4
    by (simp add: train_by_upto split: sum.splits prod.splits)
qed

lemma swap_inv_val_batch: "swap_inv s \<Longrightarrow> swap_inv (snd (val_batch s d t))"
proof -
  assume a: "swap_inv s"
  have "snd (val_batch s d t) = emit [Forward d] s"
    by (simp add: val_batch_def Let_def split: sum.splits)
  then show ?thesis using a by (simp add: swap_inv_emit)
qed

lemma swap_inv_val_batches: "swap_inv s \<Longrightarrow> swap_inv (snd (val_batches s el hel scenes))"
proof (induction scenes arbitrary: s el hel)
  case Nil
  then show ?case by simp
next
  case (Cons x rest)
  obtain d t m where x: "x = (d, t, m)" by (cases x) auto
  obtain r1 s1 where vb: "val_batch s d t = (r1, s1)" by (cases "val_batch s d t")
  have a1: "swap_inv s1" using swap_inv_val_batch [OF Cons.prems, of d t] vb by simp
  show ?case
  proof (cases r1)
    case (Inl e)
    then show ?thesis using vb a1 by (simp add: x)
  next
    case (Inr p)
    obtain l hls where p: "p = (l, hls)" by (cases p)
    show ?thesis
    proof (cases "add_head_losses hel hls")
      case (Inl e)
      then show ?thesis using vb Inr p a1 by (simp add: x)
    next
      case hel': (Inr hel')
      have "swap_inv (snd (val_batches s1 (add_loss el l) hel' rest))"
        using a1 by (rule Cons.IH)
      then show ?thesis using vb Inr p hel' by (simp add: x)
    qed
  qed
qed

lemma swap_inv_val: "swap_inv s \<Longrightarrow> swap_inv (snd (val s scenes epoch))"
proof -
  assume a: "swap_inv s"
  let ?s1 = "emit [ModelEval] s"
  obtain r s2 where u: "val_batches ?s1 0 (replicate (length (lambdas ?s1)) 0) scenes = (r, s2)"
    by (cases "val_batches ?s1 0 (replicate (length (lambdas ?s1)) 0) scenes")
  have "swap_inv ?s1" using a by (rule swap_inv_emit)
  then have "swap_inv (snd (val_batches ?s1 0 (replicate (length (lambdas ?s1)) 0) scenes))"
    by (rule swap_inv_val_batches)
  then have a2: "swap_inv s2" using u by simp
  then have a4: "swap_inv (emit evs s2)" for evs by (rule swap_inv_emit)
  show ?thesis using u a2 a4
    by (simp add: val_def Let_def split: sum.splits prod.splits)
qed

lemma swap_inv_write_model: "swap_inv s \<Longrightarrow> swap_inv (write_model s epoch final)"
proof -
  assume a: "swap_inv s"
  have "ema (write_model s epoch final) = ema s"
    "ema_restore_params (write_model s epoch final) = ema_restore_params s"
    by (simp_all add: write_model_def emit_def Let_def)
  then show ?thesis using a by (rule swap_inv_fields)
qed

lemma swap_inv_loop_epochs:
  "swap_inv s \<Longrightarrow> swap_inv (snd (loop_epochs s train_scenes val_scenes epochs es))"
proof (induction es arbitrary: s)
  case Nil
  then show ?case by simp
next
  case (Cons epoch rest)
  obtain r1 s1 where t: "train s train_scenes epoch = (r1, s1)"
    by (cases "train s train_scenes epoch")
  have a1: "swap_inv s1" using swap_inv_train [of s train_scenes epoch] t by simp
  let ?s2 = "write_model s1 (epoch + 1) (epoch = epochs - 1)"
  have a2: "swap_inv ?s2" using a1 by (rule swap_inv_write_model)
  obtain r3 s3 where v: "val ?s2 val_scenes (epoch + 1) = (r3, s3)"
    by (cases "val ?s2 val_scenes (epoch + 1)")
  have a3: "swap_inv s3" using swap_inv_val [OF a2, of val_scenes "epoch + 1"] v by simp
  then have a4: "swap_inv (snd (loop_epochs s3 train_scenes val_scenes epochs rest))"
    by (rule Cons.IH)
  show ?case using t v a1 a3 a4 by (simp add: Let_def split: sum.splits)
qed

lemma swap_inv_loop:
  "swap_inv s \<Longrightarrow> swap_inv (snd (loop s train_scenes val_scenes epochs start_epoch))"
  unfolding loop_def Let_def by (intro swap_inv_loop_epochs swap_inv_emit)

lemma swap_inv_perform: "swap_inv s \<Longrightarrow> swap_inv (perform c s)"
  by (cases c)
    (simp_all add: swap_inv_step_ema swap_inv_apply_ema swap_inv_ema_restore swap_inv_loop
      swap_inv_train_batch swap_inv_val_batch swap_inv_train swap_inv_val swap_inv_write_model)

lemma swap_inv_calls: "swap_inv s \<Longrightarrow> swap_inv (calls cs s)"
  unfolding calls_def
proof (induction cs arbitrary: s)
  case Nil
  then show ?case by simp
next
  case (Cons c cs)
  have "swap_inv (perform c s)" using Cons.prems by (rule swap_inv_perform)
  then have "swap_inv (fold perform cs (perform c s))" by (rule Cons.IH)
  then show ?case by simp
qed

text \<open>\<open>apply_ema\<close> and then \<open>ema_restore\<close>, with a shadow and without one.\<close>

lemma round_trip_shadow:
  "ema s \<noteq> None \<Longrightarrow> params (ema_restore (apply_ema s)) = params s"
  by (auto simp: apply_ema_def ema_restore_def emit_def Let_def
      length_copy_params copy_params_same_length)

lemma round_trip_clears: "ema_restore_params (ema_restore (apply_ema s)) = None"
  by (simp add: ema_restore_def emit_def Let_def split: option.splits)

lemma round_trip_no_shadow:
  "swap_inv s \<Longrightarrow> ema s = None \<Longrightarrow> ema_restore (apply_ema s) = s"
  by (simp add: swap_inv_def apply_ema_def ema_restore_def)

lemma example_train_batch:
  "calls [TrainBatch [1] [[[0]]] ''a'' True] (init example_trainer) =
     example_trainer\<lparr>params := [[2, 3]],
       trace := [Forward [1], Backward, OptimizerStep, ZeroGrad]\<rparr>"
  by (simp add: calls_def init_def example_trainer_def train_batch_def loss_def
      head_losses_of_def weighted_def py_sum_def step_ema_def emit_def Let_def)

text \<open>
  C1. In every trainer with a shadow, \<open>apply_ema\<close> followed at once by \<open>ema_restore\<close>
  leaves every parameter as it was; in every trainer the two calls leave the restore
  buffer empty, and \<open>apply_ema\<close> changes nothing when the shadow is unset. In every
  trainer that \<open>__init__\<close> has made and that any calls of its methods have changed
  since, the two calls leave every parameter as it was, and with the shadow unset the
  trainer is after them what it was before. (\<open>ema_restore\<close> looks at the restore buffer
  and not at the shadow: the last part rests on \<open>swap_inv_calls\<close>, no method leaving
  a buffer behind without a shadow.)
\<close>

theorem ema_round_trip:
  "(ema s \<noteq> None \<longrightarrow> params (ema_restore (apply_ema s)) = params s) \<and>
   ema_restore_params (ema_restore (apply_ema s)) = None \<and>
   (ema s = None \<longrightarrow> apply_ema s = s) \<and>
   params (ema_restore (apply_ema (calls cs (init cfg)))) = params (calls cs (init cfg)) \<and>
   (ema (calls cs (init cfg)) = None \<longrightarrow>
      ema_restore (apply_ema (calls cs (init cfg))) = calls cs (init cfg))"
proof (intro conjI impI)
  show "ema s \<noteq> None \<Longrightarrow> params (ema_restore (apply_ema s)) = params s"
    by (rule round_trip_shadow)
  show "ema_restore_params (ema_restore (apply_ema s)) = None" by (rule round_trip_clears)
  show "ema s = None \<Longrightarrow> apply_ema s = s" by (simp add: apply_ema_def)
  have inv: "swap_inv (calls cs (init cfg))" by (rule swap_inv_calls) (rule swap_inv_init)
  show "ema (calls cs (init cfg)) = None \<Longrightarrow>
      ema_restore (apply_ema (calls cs (init cfg))) = calls cs (init cfg)"
    using inv by (rule round_trip_no_shadow)
  show "params (ema_restore (apply_ema (calls cs (init cfg)))) = params (calls cs (init cfg))"
  proof (cases "ema (calls cs (init cfg))")
    case None
    with inv have "ema_restore (apply_ema (calls cs (init cfg))) = calls cs (init cfg)"
      by (rule round_trip_no_shadow)
    then show ?thesis by simp
  next
    case (Some e)
    then show ?thesis by (simp add: round_trip_shadow)
  qed
qed

theorem ema_round_trip_witness:
  "ema (example_trainer\<lparr>ema := Some [[5, 6]]\<rparr>) = Some [[5, 6]] \<and>
   params (apply_ema (example_trainer\<lparr>ema := Some [[5, 6]]\<rparr>)) = [[5, 6]] \<and>
   params (ema_restore (apply_ema (example_trainer\<lparr>ema := Some [[5, 6]]\<rparr>))) = [[1, 2]] \<and>
   ema_restore_params (ema_restore (apply_ema (example_trainer\<lparr>ema := Some [[5, 6]]\<rparr>))) = None \<and>
   ema (calls [TrainBatch [1] [[[0]]] ''a'' True] (init example_trainer)) = None \<and>
   params (calls [TrainBatch [1] [[[0]]] ''a'' True] (init example_trainer)) = [[2, 3]] \<and>
   ema_restore (apply_ema (calls [TrainBatch [1] [[[0]]] ''a'' True] (init example_trainer))) =
     calls [TrainBatch [1] [[[0]]] ''a'' True] (init example_trainer)"
proof -
  let ?s = "example_trainer\<lparr>ema := Some [[5, 6]]\<rparr>"
  let ?cs = "[TrainBatch [1] [[[0]]] ''a'' True]"
  note th = ema_round_trip [of ?s ?cs example_trainer]
  have e: "ema ?s = Some [[5, 6]]" by simp
  have p: "params ?s = [[1, 2]]" by (simp add: example_trainer_def)
  have a: "params (apply_ema ?s) = [[5, 6]]"
    by (simp add: example_trainer_def apply_ema_def emit_def copy_params_def tensor_copy_def)
  have n: "ema (calls ?cs (init example_trainer)) = None"
    "params (calls ?cs (init example_trainer)) = [[2, 3]]"
    unfolding example_train_batch by (simp_all add: example_trainer_def)
  from th e have "params (ema_restore (apply_ema ?s)) = params ?s" by simp
  then have r: "params (ema_restore (apply_ema ?s)) = [[1, 2]]" by (simp only: p)
  from th have c: "ema_restore_params (ema_restore (apply_ema ?s)) = None" by blast
  from th n(1) have
    "ema_restore (apply_ema (calls ?cs (init example_trainer))) = calls ?cs (init example_trainer)"
    by blast
  with e a r c n show ?thesis by blast
qed

subsection \<open>The scheduler and the first batch\<close>

lemma train_begin_trace: "trace (train_begin s epoch) = trace s @ begin_events s epoch"
  by (simp add: train_begin_def begin_events_def ema_restore_def emit_def Let_def
      split: option.splits)

lemma begin_events_no_batch: "ev \<in> set (begin_events s epoch) \<Longrightarrow> \<not> batch_started ev"
  by (auto simp: begin_events_def split: if_splits)

lemma begin_events_sched: "lr_scheduler s \<Longrightarrow> sched_steps (begin_events s epoch) = 1"
  by (simp add: begin_events_def sched_steps_def)

lemma train_no_batch:
  assumes "scenes = [] \<or> stride_apply s = 0"
  shows "train s scenes epoch = (Inl ZeroDivisionError, train_begin s epoch)"
proof (cases scenes)
  case Nil
  then show ?thesis by (simp add: train_def apply_ema_def train_begin_ema)
next
  case (Cons x rest)
  obtain d t m where x: "x = (d, t, m)" by (cases x) auto
  have "stride_apply (train_begin s epoch) = 0"
    using assms Cons advances_config(1) [OF advances_train_begin [of s epoch]] by simp
  then show ?thesis using Cons x by (simp add: train_def Let_def)
qed

lemma train_batch_first_event:
  "\<exists>b post. batch_started b \<and> trace (snd (train_batch s d t m ag)) = trace s @ b # post"
proof -
  from train_batch_events [of s d t m ag] obtain evs where
    ev: "trace (snd (train_batch s d t m ag)) =
           trace s @ (if encoder_visualizer s then [Visualize d t m] else []) @ Forward d # evs"
    by blast
  show ?thesis
  proof (cases "encoder_visualizer s")
    case True
    then have "trace (snd (train_batch s d t m ag)) = trace s @ Visualize d t m # (Forward d # evs)"
      using ev by simp
    moreover have "batch_started (Visualize d t m)" by simp
    ultimately show ?thesis by blast
  next
    case False
    then have "trace (snd (train_batch s d t m ag)) = trace s @ Forward d # evs"
      using ev by simp
    moreover have "batch_started (Forward d)" by simp
    ultimately show ?thesis by blast
  qed
qed

lemma train_batches_after_first:
  assumes "stride_apply s \<noteq> 0"
  shows "advances (snd (train_batch s d t m (int idx mod stride_apply s = 0)))
           (snd (train_batches s epoch n idx el hel ((d, t, m) # rest)))"
proof (rule train_batches_Cons_cases [of s epoch n idx el hel d t m])
  assume "stride_apply s = 0"
  with assms show ?thesis by simp
next
  fix e
  assume "\<And>rest. train_batches s epoch n idx el hel ((d, t, m) # rest) =
      (Inl e, snd (train_batch s d t m (int idx mod stride_apply s = 0)))"
  then show ?thesis by (simp add: advances_refl)
next
  fix l hls hel'
  let ?s1 = "snd (train_batch s d t m (int idx mod stride_apply s = 0))"
  let ?s3 = "initialize_ema (log_batch ?s1 epoch idx n l hls)"
  assume r: "\<And>rest. train_batches s epoch n idx el hel ((d, t, m) # rest) =
        train_batches ?s3 epoch n (Suc idx) (add_loss el l) hel' rest"
  have "advances ?s1 ?s3"
    by (rule advances_trans [OF advances_log_batch advances_initialize_ema])
  then have "advances ?s1 (snd (train_batches ?s3 epoch n (Suc idx) (add_loss el l) hel' rest))"
    by (rule advances_trans) (rule advances_train_batches)
  then show ?thesis by (simp only: r)
qed

lemma advances_train_end:
  "advances (snd (train_upto s scenes epoch (length scenes))) (snd (train s scenes epoch))"
proof -
  obtain r s2 where u: "train_upto s scenes epoch (length scenes) = (r, s2)"
    by (cases "train_upto s scenes epoch (length scenes)")
  have a3: "advances s2 (apply_ema s2)" by (rule advances_apply_ema)
  then have a4: "advances s2 (emit evs (apply_ema s2))" for evs
    by (rule advances_trans) (rule advances_emit)
  show ?thesis using u a3 a4
    by (simp add: train_by_upto advances_refl split: sum.splits prod.splits)
qed

lemma train_first_batch:
  assumes "scenes \<noteq> []" "stride_apply s \<noteq> 0"
  shows "\<exists>b post. batch_started b \<and>
           trace (snd (train s scenes epoch)) = trace (train_begin s epoch) @ b # post"
proof -
  obtain d t m rest where sc: "scenes = (d, t, m) # rest"
    using assms(1) by (cases scenes) auto
  let ?sb = "train_begin s epoch"
  let ?tb = "snd (train_batch ?sb d t m (int 0 mod stride_apply ?sb = 0))"
  have k: "stride_apply ?sb \<noteq> 0"
    using assms(2) advances_config(1) [OF advances_train_begin [of s epoch]] by simp
  from train_batch_first_event [of ?sb d t m "int 0 mod stride_apply ?sb = 0"]
  obtain b post where b: "batch_started b" "trace ?tb = trace ?sb @ b # post" by blast
  have "advances ?tb (snd (train_upto s scenes epoch (length scenes)))"
    unfolding train_upto_def Let_def sc take_all [OF order_refl]
    by (rule train_batches_after_first [OF k])
  then have "advances ?tb (snd (train s scenes epoch))"
    by (rule advances_trans) (rule advances_train_end)
  then obtain more where "trace (snd (train s scenes epoch)) = trace ?tb @ more"
    using advances_trace by blast
  then have "trace (snd (train s scenes epoch)) = trace ?sb @ b # (post @ more)"
    using b(2) by simp
  with b(1) show ?thesis by blast
qed

lemma loop_epochs_after_train:
  "advances (snd (train s train_scenes epoch))
     (snd (loop_epochs s train_scenes val_scenes epochs (epoch # rest)))"
proof -
  obtain r1 s1 where t: "train s train_scenes epoch = (r1, s1)"
    by (cases "train s train_scenes epoch")
  let ?s2 = "write_model s1 (epoch + 1) (epoch = epochs - 1)"
  have a2: "advances s1 ?s2" by (rule advances_write_model)
  obtain r3 s3 where v: "val ?s2 val_scenes (epoch + 1) = (r3, s3)"
    by (cases "val ?s2 val_scenes (epoch + 1)")
  have "advances ?s2 s3" using advances_val [of ?s2 val_scenes "epoch + 1"] v by simp
  with a2 have a3: "advances s1 s3" by (rule advances_trans)
  then have a4: "advances s1 (snd (loop_epochs s3 train_scenes val_scenes epochs rest))"
    by (rule advances_trans) (rule advances_loop_epochs)
  show ?thesis using t v a3 a4 by (simp add: Let_def advances_refl split: sum.splits)
qed

lemma loop_epochs_train_fails:
  "train s train_scenes epoch = (Inl e, s1) \<Longrightarrow>
     loop_epochs s train_scenes val_scenes epochs (epoch # rest) = (Inl e, s1)"
  by simp

lemma sched_steps_replicate: "sched_steps (replicate n SchedulerStep @ evs) = n + sched_steps evs"
  by (simp add: sched_steps_def)

lemma before_first_batch_none:
  "(\<And>ev. ev \<in> set evs \<Longrightarrow> \<not> batch_started ev) \<Longrightarrow> batch_started b \<Longrightarrow>
     before_first_batch (evs @ b # post) = evs"
  by (simp add: before_first_batch_def takeWhile_tail)


lemma example_loop_trace:
  "trace (snd (loop example_trainer one_scene one_scene 6 5)) =
     [SchedulerStep, SchedulerStep, SchedulerStep, SchedulerStep, SchedulerStep,
      ModelTrain, Print 5, SchedulerStep, ZeroGrad,
      Forward [1], Backward, OptimizerStep, ZeroGrad,
      Log (LogTrain 5 0 1 (Some (1 / 10)) (Some 4) [Some 2, Some 3]),
      Log (LogInfo ''applying ema''), Log (LogTrainEpoch 6 4 [2, 3]),
      ModelToCpu, Log (LogDebug ''Writing a single-thread model.''),
      Log (LogDebug ''about to write model''), Save ''model.pkl'' 6,
      Log (LogDebug ''model written''), ModelToDevice,
      ModelEval, Forward [1], Log (LogValEpoch 6 4 [2, 3])]"
  by (simp add: loop_def upto_rec1 train_def val_def write_model_def apply_ema_def
      one_scene_def train_begin_def ema_restore_def emit_def val_batch_def
      example_trainer_def train_batch_def loss_def head_losses_of_def weighted_def py_sum_def
      step_ema_def add_loss_def log_batch_def initialize_ema_def Let_def eval_nat_numeral)

text \<open>
  C5. With a scheduler, \<open>loop\<close> first steps it \<open>start_epoch\<close> times, so that it has
  taken exactly that many steps when the first \<open>train\<close> of the run begins; \<open>train\<close>
  steps it once more before its loop. Whenever a training batch executes in the run,
  the scheduler has taken \<open>start_epoch + 1\<close> steps when the first one begins: six for
  \<open>start_epoch = 5\<close>. A first batch does execute when there is an epoch to run, the
  training data is not empty and the stride is not zero.
\<close>

theorem scheduler_steps_at_first_batch:
  "lr_scheduler s \<longrightarrow>
     (\<exists>evs. trace (snd (loop s train_scenes val_scenes epochs start_epoch)) = trace s @ evs \<and>
        (start_epoch < epochs \<longrightarrow>
           take (nat start_epoch + 1) evs =
             replicate (nat start_epoch) SchedulerStep @ [ModelTrain]) \<and>
        ((\<exists>b. b \<in> set evs \<and> batch_started b) \<longrightarrow>
           sched_steps (before_first_batch evs) = nat start_epoch + 1) \<and>
        (start_epoch < epochs \<and> train_scenes \<noteq> [] \<and> stride_apply s \<noteq> 0 \<longrightarrow>
           (\<exists>b. b \<in> set evs \<and> batch_started b)))"
proof
  assume sch: "lr_scheduler s"
  let ?n = "nat start_epoch"
  let ?ff = "replicate ?n SchedulerStep"
  let ?s0 = "emit ?ff s"
  let ?final = "snd (loop s train_scenes val_scenes epochs start_epoch)"
  have lp: "loop s train_scenes val_scenes epochs start_epoch =
      loop_epochs ?s0 train_scenes val_scenes epochs [start_epoch..epochs - 1]"
    using sch by (simp add: loop_def Let_def)
  have t0: "trace ?s0 = trace s @ ?ff" by (simp add: emit_keeps)
  have ff_no: "\<not> batch_started ev" if "ev \<in> set ?ff" for ev using that by auto
  show "\<exists>evs. trace ?final = trace s @ evs \<and>
        (start_epoch < epochs \<longrightarrow>
           take (nat start_epoch + 1) evs =
             replicate (nat start_epoch) SchedulerStep @ [ModelTrain]) \<and>
        ((\<exists>b. b \<in> set evs \<and> batch_started b) \<longrightarrow>
           sched_steps (before_first_batch evs) = nat start_epoch + 1) \<and>
        (start_epoch < epochs \<and> train_scenes \<noteq> [] \<and> stride_apply s \<noteq> 0 \<longrightarrow>
           (\<exists>b. b \<in> set evs \<and> batch_started b))"
  proof (cases "start_epoch < epochs")
    case False
    then have "[start_epoch..epochs - 1] = []" by simp
    then have tr: "trace ?final = trace s @ ?ff" using lp t0 by simp
    have none: "\<not> (\<exists>b. b \<in> set ?ff \<and> batch_started b)" using ff_no by blast
    show ?thesis
      apply (rule exI [of _ ?ff])
      apply (intro conjI impI)
         apply (rule tr)
      using False none by blast+
  next
    case True
    then have up: "[start_epoch..epochs - 1] = start_epoch # [start_epoch + 1..epochs - 1]"
      by (simp add: upto_rec1)
    let ?sb = "train_begin ?s0 start_epoch"
    let ?pre = "?ff @ begin_events ?s0 start_epoch"
    let ?tr = "snd (train ?s0 train_scenes start_epoch)"
    have tb: "trace ?sb = trace s @ ?pre" by (simp add: train_begin_trace t0)
    have pre_no: "\<not> batch_started ev" if "ev \<in> set ?pre" for ev
      using that ff_no begin_events_no_batch by auto
    have pre_take: "take (?n + 1) (?pre @ xs) = ?ff @ [ModelTrain]" for xs
      by (simp add: begin_events_def)
    have "lr_scheduler ?s0" using sch by (simp add: emit_def)
    then have pre_sched: "sched_steps ?pre = ?n + 1"
      by (simp add: sched_steps_replicate begin_events_sched)
    have k: "stride_apply ?s0 = stride_apply s" by (simp add: emit_def)
    show ?thesis
    proof (cases "train_scenes = [] \<or> stride_apply s = 0")
      case nb: True
      then have "train_scenes = [] \<or> stride_apply ?s0 = 0" using k by simp
      then have "train ?s0 train_scenes start_epoch = (Inl ZeroDivisionError, ?sb)"
        by (rule train_no_batch)
      then have "loop s train_scenes val_scenes epochs start_epoch = (Inl ZeroDivisionError, ?sb)"
        unfolding lp up by (rule loop_epochs_train_fails)
      then have tr: "trace ?final = trace s @ ?pre" using tb by simp
      have none: "\<not> (\<exists>b. b \<in> set ?pre \<and> batch_started b)" using pre_no by blast
      have tk: "take (?n + 1) ?pre = ?ff @ [ModelTrain]" using pre_take [of "[]"] by simp
      show ?thesis
        apply (rule exI [of _ ?pre])
        apply (intro conjI impI)
           apply (rule tr)
          apply (rule tk)
        using nb none by blast+
    next
      case False
      then have ne: "train_scenes \<noteq> []" and st: "stride_apply ?s0 \<noteq> 0" using k by simp_all
      from train_first_batch [OF ne st, of start_epoch] obtain b post where
        b: "batch_started b" "trace ?tr = trace ?sb @ b # post" by blast
      have "advances ?tr ?final" unfolding lp up by (rule loop_epochs_after_train)
      then obtain more where "trace ?final = trace ?tr @ more" using advances_trace by blast
      then have tr: "trace ?final = trace s @ (?pre @ b # (post @ more))" using b(2) tb by simp
      have bf: "before_first_batch (?pre @ b # (post @ more)) = ?pre"
        by (rule before_first_batch_none [OF pre_no b(1)])
      have c3: "sched_steps (before_first_batch (?pre @ b # (post @ more))) = ?n + 1"
        unfolding bf by (rule pre_sched)
      have c4: "\<exists>x. x \<in> set (?pre @ b # (post @ more)) \<and> batch_started x"
        using b(1) by (intro exI [of _ b]) simp
      show ?thesis
        apply (rule exI [of _ "?pre @ b # (post @ more)"])
        apply (intro conjI impI)
           apply (rule tr)
          apply (rule pre_take)
         apply (rule c3)
        apply (rule c4)
        done
    qed
  qed
qed

theorem scheduler_steps_at_first_batch_witness:
  "lr_scheduler example_trainer \<and> (5 :: int) < 6 \<and> length one_scene = 1 \<and>
   stride_apply example_trainer = 2 \<and> trace example_trainer = [] \<and>
   sched_steps (before_first_batch
     (trace (snd (loop example_trainer one_scene one_scene 6 5)))) = 6"
proof -
  have f: "lr_scheduler example_trainer" "stride_apply example_trainer = 2"
    "trace example_trainer = []" "length one_scene = 1"
    by (simp_all add: example_trainer_def one_scene_def)
  have ne: "one_scene \<noteq> []" using f(4) by auto
  from scheduler_steps_at_first_batch [of example_trainer one_scene one_scene 6 5] f(1)
  obtain evs where
    evs: "trace (snd (loop example_trainer one_scene one_scene 6 5)) = trace example_trainer @ evs"
      "(\<exists>b. b \<in> set evs \<and> batch_started b) \<longrightarrow>
         sched_steps (before_first_batch evs) = nat 5 + 1"
      "(5 :: int) < 6 \<and> one_scene \<noteq> [] \<and> stride_apply example_trainer \<noteq> 0 \<longrightarrow>
         (\<exists>b. b \<in> set evs \<and> batch_started b)"
    by blast
  have "\<exists>b. b \<in> set evs \<and> batch_started b" using evs(3) ne f(2) by simp
  then have "sched_steps (before_first_batch evs) = 6" using evs(2) by simp
  moreover have "evs = trace (snd (loop example_trainer one_scene one_scene 6 5))"
    using evs(1) f(3) by simp
  ultimately show ?thesis using f by simp
qed

theorem scheduler_stepped_six_times:
  "lr_scheduler example_trainer \<and> trace example_trainer = [] \<and>
   take 10 (trace (snd (loop example_trainer one_scene one_scene 6 5))) =
     [SchedulerStep, SchedulerStep, SchedulerStep, SchedulerStep, SchedulerStep,
      ModelTrain, Print 5, SchedulerStep, ZeroGrad, Forward [1]] \<and>
   before_first_batch (trace (snd (loop example_trainer one_scene one_scene 6 5))) =
     [SchedulerStep, SchedulerStep, SchedulerStep, SchedulerStep, SchedulerStep,
      ModelTrain, Print 5, SchedulerStep, ZeroGrad] \<and>
   sched_steps (before_first_batch
     (trace (snd (loop example_trainer one_scene one_scene 6 5)))) = 6"
  unfolding example_loop_trace
  by (simp add: example_trainer_def before_first_batch_def sched_steps_def)

end
